theory Spec2Isabelle
  imports Main "HOL-Library.Word"
begin

section \<open>Data model (package types)\<close>

text \<open>
  Go byte slices are lists of 8-bit words. A Go pointer that may be nil is an
  \<open>option\<close> (\<open>None\<close> is nil); dereferencing nil panics, which every model function
  below writes out as a \<open>Panic\<close> outcome. Field names carry a short prefix of their
  struct, because several structs of the source share field names.
\<close>

type_synonym bytes = "8 word list"

text \<open>
  \<open>time.Time\<close> is an instant counted in nanoseconds from the zero time
  (January 1, year 1, 00:00:00 UTC), so that \<open>IsZero\<close> is the test against 0.
  \<open>time.Duration\<close> is a count of nanoseconds.
\<close>

type_synonym Time = int
type_synonym Duration = int

definition Nanosecond :: Duration where
  "Nanosecond = 1"

definition Hour :: Duration where
  "Hour = 3600 * 1000000000 * Nanosecond"

definition Add :: "Time \<Rightarrow> Duration \<Rightarrow> Time" where
  "Add t d = t + d"

definition Before :: "Time \<Rightarrow> Time \<Rightarrow> bool" where
  "Before t u = (t < u)"

definition IsZero :: "Time \<Rightarrow> bool" where
  "IsZero t = (t = 0)"

text \<open>
  \<open>types.Domain\<close>. \<open>SANs\<close> keeps the difference between a nil slice and an empty
  one, which \<open>reflect.DeepEqual\<close> observes; with it, \<open>DeepEqual\<close> on two
  \<open>*Domain\<close> values is HOL equality on \<open>Domain option\<close>.
\<close>

record Domain =
  Main :: string
  SANs :: "string list option"

record Certificate =
  c_Domain :: string
  c_CertURL :: string
  c_CertStableURL :: string
  c_PrivateKey :: bytes
  c_Cert :: bytes

text \<open>\<open>tls.Certificate\<close>: the chain of DER segments and the private key it was paired with.\<close>

record tlsCertificate =
  t_Certificate :: "bytes list"
  t_PrivateKey :: bytes

record DomainCertificate =
  dc_Certificate :: "Certificate option"
  dc_Domain :: "Domain option"
  dc_TLSCert :: "tlsCertificate option"

text \<open>\<open>acme.RegistrationResource\<close> is opaque to this repository: a handle.\<close>

type_synonym RegistrationResource = string

record Account =
  Email :: string
  Registration :: "RegistrationResource option"
  PrivateKey :: bytes
  DomainsCertificate :: "DomainCertificate option"

text \<open>\<open>acme.CertificateResource\<close> of the validation client.\<close>

record CertificateResource =
  r_Domain :: string
  r_CertURL :: string
  r_CertStableURL :: string
  r_PrivateKey :: bytes
  r_Certificate :: bytes

text \<open>
  The fields of \<open>x509.Certificate\<close> that the repository reads or writes
  (\<open>CommonName\<close> is \<open>Subject.CommonName\<close>).
\<close>

record x509Certificate =
  SerialNumber :: int
  CommonName :: string
  NotBefore :: Time
  NotAfter :: Time
  KeyUsage :: int
  BasicConstraintsValid :: bool
  DNSNames :: "string list"

section \<open>Errors and outcomes\<close>

text \<open>
  Go \<open>error\<close> values. \<open>External\<close> is an error handed back by a collaborator outside
  the repository (crypto, the validation client, the operating system, a storage
  backend); \<open>ErrorString\<close> is \<open>errors.New\<close> with its text; the other constructors are
  the \<open>fmt.Errorf\<close> sites of the source, with the values they format
  (the account printed by \<open>%+v\<close> in \<open>ErrorSavingAccount\<close> is left out).
  \<open>NotExist\<close> is an operating-system error for which \<open>os.IsNotExist\<close> holds.
\<close>

datatype error =
    External string
  | NotExist string
  | ErrorString string
  | ErrorGettingCertificate "string list" error
  | ErrorAddingCertificate "string list" error
  | ErrorSavingAccount error
  | CannotObtainCertificates "(string \<times> error) list"
  | CouldNotInitBackend string error
  | UnknownBackend string
  | ErrorLoadingAccount error

text \<open>
  What a call does: it returns a value, returns a non-nil \<open>error\<close>, or panics
  (the process crashes unless some caller recovers; nothing in the repository does).
\<close>

datatype 'a outcome = Return 'a | Fail error | Panic string

definition nilDeref :: string where
  "nilDeref = ''invalid memory address or nil pointer dereference''"

section \<open>DomainCertificate operations\<close>

text \<open>\<open>tls.X509KeyPair\<close> and \<open>x509.ParseCertificate\<close> are parameters of the model.\<close>

type_synonym keyPairFn = "bytes \<Rightarrow> bytes \<Rightarrow> error + tlsCertificate"
type_synonym parseFn = "bytes \<Rightarrow> error + x509Certificate"

definition tlsCert :: "keyPairFn \<Rightarrow> DomainCertificate \<Rightarrow> tlsCertificate outcome" where
  "tlsCert X509KeyPair dc =
     (case dc_Certificate dc of
        None \<Rightarrow> Panic nilDeref
      | Some c \<Rightarrow>
          (case X509KeyPair (c_Cert c) (c_PrivateKey c) of
             Inl err \<Rightarrow> Fail err
           | Inr cert \<Rightarrow> Return cert))"

text \<open>
  The methods on \<open>*DomainCertificate\<close> mutate the receiver: the model returns the
  outcome together with the receiver after the call.
\<close>

definition Init :: "keyPairFn \<Rightarrow> DomainCertificate \<Rightarrow> unit outcome \<times> DomainCertificate" where
  "Init X509KeyPair dc =
     (case tlsCert X509KeyPair dc of
        Fail err \<Rightarrow> (Fail err, dc)
      | Panic m \<Rightarrow> (Panic m, dc)
      | Return tlsCert' \<Rightarrow> (Return (), dc\<lparr>dc_TLSCert := Some tlsCert'\<rparr>))"

definition RenewCertificate ::
  "keyPairFn \<Rightarrow> DomainCertificate \<Rightarrow> Certificate option \<Rightarrow> Domain option
     \<Rightarrow> unit outcome \<times> DomainCertificate" where
  "RenewCertificate X509KeyPair dc acmeCert domain =
     (if domain = dc_Domain dc
      then Init X509KeyPair (dc\<lparr>dc_Certificate := acmeCert\<rparr>)
      else (case domain of
              None \<Rightarrow> (Panic nilDeref, dc)
            | Some d \<Rightarrow>
                (Fail (ErrorString (''Certificate to renew not found for domain '' @ Main d)), dc)))"

definition AddCertificate ::
  "keyPairFn \<Rightarrow> DomainCertificate \<Rightarrow> Certificate option \<Rightarrow> Domain option
     \<Rightarrow> unit outcome \<times> DomainCertificate" where
  "AddCertificate X509KeyPair dc acmeCert domain =
     Init X509KeyPair (dc\<lparr>dc_Domain := domain, dc_Certificate := acmeCert\<rparr>)"

section \<open>Expiration policy\<close>

text \<open>
  \<open>needsUpdate\<close> ranges over the chain of a non-nil \<open>*tls.Certificate\<close> (the caller's
  nil case is in \<open>renewCertificate\<close>). \<open>time.Now()\<close> is read once for every segment
  that parses: \<open>clock k\<close> is the k-th reading of the call, and \<open>needsUpdateFrom\<close> is the
  loop from the k-th segment on.
\<close>

fun needsUpdateFrom :: "parseFn \<Rightarrow> (nat \<Rightarrow> Time) \<Rightarrow> nat \<Rightarrow> bytes list \<Rightarrow> bool" where
  "needsUpdateFrom ParseCertificate clock k [] = False"
| "needsUpdateFrom ParseCertificate clock k (c # cs) =
     (case ParseCertificate c of
        Inl err \<Rightarrow> True
      | Inr crt \<Rightarrow>
          if Before (NotAfter crt) (Add (clock k) (24 * 7 * Hour)) then True
          else needsUpdateFrom ParseCertificate clock (Suc k) cs)"

definition needsUpdate :: "parseFn \<Rightarrow> (nat \<Rightarrow> Time) \<Rightarrow> tlsCertificate \<Rightarrow> bool" where
  "needsUpdate ParseCertificate clock cert =
     needsUpdateFrom ParseCertificate clock 0 (t_Certificate cert)"

section \<open>Collaborators: validation client and storage backend\<close>

text \<open>
  The validation client (\<open>*acme.Client\<close> of lego) and a storage backend
  (\<open>backend.Interface\<close>) are values holding what each of their operations answers.
  \<open>failures\<close> of \<open>ObtainCertificate\<close> is the map of failed domains, as a list of its
  entries. Every call made to them is recorded, in order, in a list of \<open>call\<close>s.
\<close>

record acmeClient =
  cl_ObtainCertificate :: "string list \<Rightarrow> bool \<Rightarrow> CertificateResource \<times> (string \<times> error) list"
  cl_RenewCertificate :: "CertificateResource \<Rightarrow> bool \<Rightarrow> error + CertificateResource"
  cl_Register :: "error + RegistrationResource"
  cl_AgreeToTOS :: "error option"

record backendInterface =
  b_LoadAccount :: "string \<Rightarrow> Account option \<times> error option"
  b_Name :: string
  b_SaveAccount :: "Account \<Rightarrow> error option"

datatype call =
    ClientObtainCertificate "string list" bool
  | ClientRenewCertificate CertificateResource bool
  | ClientExcludeChallenges "string list"
  | ClientSetChallengeProvider string string
  | ClientRegister
  | ClientAgreeToTOS
  | BackendLoadAccount string
  | BackendSaveAccount Account

text \<open>The \<open>ACME\<close> struct; its \<open>Logger\<close> only prints and is left out.\<close>

record ACME =
  a_backend :: "backendInterface option"
  a_Domain :: "Domain option"
  a_BackendName :: string
  a_CAServer :: string
  a_DNSProvider :: string
  a_Email :: string
  a_SelfSigned :: bool

definition bundleCA :: bool where
  "bundleCA = True"

definition defaultCAServer :: string where
  "defaultCAServer = ''https://acme-v01.api.letsencrypt.org/directory''"

section \<open>Certificate acquisition and renewal (acme.go)\<close>

definition getDomainCertificate ::
  "acmeClient \<Rightarrow> string list \<Rightarrow> Certificate outcome \<times> call list" where
  "getDomainCertificate client domains =
     (case cl_ObtainCertificate client domains bundleCA of
        (certificate, failures) \<Rightarrow>
          if length failures > 0
          then (Fail (CannotObtainCertificates failures),
                [ClientObtainCertificate domains bundleCA])
          else (Return \<lparr>c_Domain = r_Domain certificate,
                         c_CertURL = r_CertURL certificate,
                         c_CertStableURL = r_CertStableURL certificate,
                         c_PrivateKey = r_PrivateKey certificate,
                         c_Cert = r_Certificate certificate\<rparr>,
                [ClientObtainCertificate domains bundleCA]))"

text \<open>
  \<open>retrieveCertificate\<close> and \<open>renewCertificate\<close> mutate the account through its
  pointer: the model returns the outcome, the account after the call and the calls made.
\<close>

definition retrieveCertificate ::
  "keyPairFn \<Rightarrow> ACME \<Rightarrow> acmeClient \<Rightarrow> Account
     \<Rightarrow> tlsCertificate option outcome \<times> Account \<times> call list" where
  "retrieveCertificate X509KeyPair a client account =
     (case a_Domain a of
        None \<Rightarrow> (Panic nilDeref, account, [])
      | Some d \<Rightarrow>
          let domain = [Main d] @ (case SANs d of None \<Rightarrow> [] | Some sans \<Rightarrow> sans) in
          (case getDomainCertificate client domain of
             (Fail err, calls) \<Rightarrow> (Fail (ErrorGettingCertificate domain err), account, calls)
           | (Panic m, calls) \<Rightarrow> (Panic m, account, calls)
           | (Return certificate, calls) \<Rightarrow>
               (case DomainsCertificate account of
                  None \<Rightarrow> (Panic nilDeref, account, calls)
                | Some dc \<Rightarrow>
                    (case AddCertificate X509KeyPair dc (Some certificate) (a_Domain a) of
                       (Fail err, dc') \<Rightarrow>
                         (Fail (ErrorAddingCertificate domain err),
                          account\<lparr>DomainsCertificate := Some dc'\<rparr>, calls)
                     | (Panic m, dc') \<Rightarrow>
                         (Panic m, account\<lparr>DomainsCertificate := Some dc'\<rparr>, calls)
                     | (Return u, dc') \<Rightarrow>
                         let account' = account\<lparr>DomainsCertificate := Some dc'\<rparr> in
                         (case a_backend a of
                            None \<Rightarrow> (Panic nilDeref, account', calls)
                          | Some b \<Rightarrow>
                              (case b_SaveAccount b account' of
                                 Some err \<Rightarrow>
                                   (Fail (ErrorSavingAccount err), account',
                                    calls @ [BackendSaveAccount account'])
                               | None \<Rightarrow>
                                   (Return (dc_TLSCert dc'), account',
                                    calls @ [BackendSaveAccount account'])))))))"

definition renewCertificate ::
  "keyPairFn \<Rightarrow> parseFn \<Rightarrow> (nat \<Rightarrow> Time) \<Rightarrow> ACME \<Rightarrow> acmeClient \<Rightarrow> Account
     \<Rightarrow> unit outcome \<times> Account \<times> call list" where
  "renewCertificate X509KeyPair ParseCertificate clock a client account =
     (case DomainsCertificate account of
        None \<Rightarrow> (Panic nilDeref, account, [])
      | Some dc \<Rightarrow>
          (case dc_TLSCert dc of
             None \<Rightarrow> (Panic nilDeref, account, [])
           | Some cert \<Rightarrow>
               if needsUpdate ParseCertificate clock cert then
                 (case dc_Certificate dc of
                    None \<Rightarrow> (Panic nilDeref, account, [])
                  | Some c \<Rightarrow>
                      let resource = \<lparr>r_Domain = c_Domain c,
                                      r_CertURL = c_CertURL c,
                                      r_CertStableURL = c_CertStableURL c,
                                      r_PrivateKey = c_PrivateKey c,
                                      r_Certificate = c_Cert c\<rparr>;
                          calls = [ClientRenewCertificate resource False] in
                      (case cl_RenewCertificate client resource False of
                         Inl err \<Rightarrow> (Fail err, account, calls)
                       | Inr renewedCert \<Rightarrow>
                           let renewedACMECert = \<lparr>c_Domain = r_Domain renewedCert,
                                                  c_CertURL = r_CertURL renewedCert,
                                                  c_CertStableURL = r_CertStableURL renewedCert,
                                                  c_PrivateKey = r_PrivateKey renewedCert,
                                                  c_Cert = r_Certificate renewedCert\<rparr> in
                           (case RenewCertificate X509KeyPair dc (Some renewedACMECert) (dc_Domain dc) of
                              (Fail err, dc') \<Rightarrow>
                                (Fail err, account\<lparr>DomainsCertificate := Some dc'\<rparr>, calls)
                            | (Panic m, dc') \<Rightarrow>
                                (Panic m, account\<lparr>DomainsCertificate := Some dc'\<rparr>, calls)
                            | (Return u, dc') \<Rightarrow>
                                let account' = account\<lparr>DomainsCertificate := Some dc'\<rparr> in
                                (case a_backend a of
                                   None \<Rightarrow> (Panic nilDeref, account', calls)
                                 | Some b \<Rightarrow>
                                     (case b_SaveAccount b account' of
                                        Some err \<Rightarrow>
                                          (Fail err, account',
                                           calls @ [BackendSaveAccount account'])
                                      | None \<Rightarrow>
                                          (Return (), account',
                                           calls @ [BackendSaveAccount account']))))))
               else (Return (), account, [])))"

section \<open>Challenge providers (provider.go)\<close>

text \<open>
  A challenge provider is opaque: a handle. The constructors of the lego provider
  packages are one parameter, applied to the name of the package.
\<close>

type_synonym ChallengeProvider = string

definition ofResult :: "error + 'a \<Rightarrow> 'a outcome" where
  "ofResult r = (case r of Inl err \<Rightarrow> Fail err | Inr v \<Rightarrow> Return v)"

definition newDNSProvider ::
  "(string \<Rightarrow> error + ChallengeProvider) \<Rightarrow> string \<Rightarrow> ChallengeProvider outcome" where
  "newDNSProvider NewDNSProvider dns =
     (if dns = ''cloudflare'' then ofResult (NewDNSProvider ''cloudflare'')
      else if dns = ''digitalocean'' then ofResult (NewDNSProvider ''digitalocean'')
      else if dns = ''dnsimple'' then ofResult (NewDNSProvider ''dnsimple'')
      else if dns = ''dyn'' then ofResult (NewDNSProvider ''dyn'')
      else if dns = ''gandi'' then ofResult (NewDNSProvider ''gandi'')
      else if dns = ''gcloud'' then ofResult (NewDNSProvider ''googlecloud'')
      else if dns = ''manual'' then ofResult (NewDNSProvider ''acme.manual'')
      else if dns = ''namecheap'' then ofResult (NewDNSProvider ''namecheap'')
      else if dns = ''route53'' then ofResult (NewDNSProvider ''route53'')
      else if dns = ''rfc2136'' then ofResult (NewDNSProvider ''rfc2136'')
      else if dns = ''vultr'' then ofResult (NewDNSProvider ''vultr'')
      else Panic (''Unknown dns provider '' @ dns))"

section \<open>Self-signed certificates\<close>

text \<open>
  An RSA private key is represented by its PKCS1 encoding. \<open>rand.Int\<close>,
  \<open>x509.CreateCertificate\<close>, \<open>pem.EncodeToMemory\<close> and \<open>rsa.GenerateKey\<close> are
  parameters; \<open>clock k\<close> is the k-th reading of \<open>time.Now()\<close> in the call.
\<close>

definition KeyUsageKeyEncipherment :: int where
  "KeyUsageKeyEncipherment = 4"

definition generateDerCert ::
  "(int \<Rightarrow> error + int) \<Rightarrow> (nat \<Rightarrow> Time) \<Rightarrow> (x509Certificate \<Rightarrow> bytes \<Rightarrow> error + bytes)
     \<Rightarrow> bytes \<Rightarrow> Time \<Rightarrow> string \<Rightarrow> bytes outcome" where
  "generateDerCert randInt clock CreateCertificate privateKey expiration domain =
     (let serialNumberLimit = 2 ^ 128 in
      case randInt serialNumberLimit of
        Inl err \<Rightarrow> Fail err
      | Inr serialNumber \<Rightarrow>
          let template =
            \<lparr>SerialNumber = serialNumber,
             CommonName = ''DEFAULT CERT'',
             NotBefore = (if IsZero expiration then clock 1 else clock 0),
             NotAfter = (if IsZero expiration then Add (clock 0) 365 else expiration),
             KeyUsage = KeyUsageKeyEncipherment,
             BasicConstraintsValid = True,
             DNSNames = [domain]\<rparr>
          in ofResult (CreateCertificate template privateKey))"

definition generatePemCert ::
  "(int \<Rightarrow> error + int) \<Rightarrow> (nat \<Rightarrow> Time) \<Rightarrow> (x509Certificate \<Rightarrow> bytes \<Rightarrow> error + bytes)
     \<Rightarrow> (string \<Rightarrow> bytes \<Rightarrow> bytes) \<Rightarrow> bytes \<Rightarrow> string \<Rightarrow> bytes outcome" where
  "generatePemCert randInt clock CreateCertificate EncodeToMemory privateKey domain =
     (case generateDerCert randInt clock CreateCertificate privateKey 0 domain of
        Fail err \<Rightarrow> Fail err
      | Panic m \<Rightarrow> Panic m
      | Return derBytes \<Rightarrow> Return (EncodeToMemory ''CERTIFICATE'' derBytes))"

definition generateSelfSignedCertificate ::
  "(nat \<Rightarrow> error + bytes) \<Rightarrow> (int \<Rightarrow> error + int) \<Rightarrow> (nat \<Rightarrow> Time)
     \<Rightarrow> (x509Certificate \<Rightarrow> bytes \<Rightarrow> error + bytes) \<Rightarrow> (string \<Rightarrow> bytes \<Rightarrow> bytes)
     \<Rightarrow> keyPairFn \<Rightarrow> string \<Rightarrow> tlsCertificate outcome" where
  "generateSelfSignedCertificate GenerateKey randInt clock CreateCertificate EncodeToMemory
       X509KeyPair domain =
     (case GenerateKey 2048 of
        Inl err \<Rightarrow> Fail err
      | Inr rsaPrivKey \<Rightarrow>
          let rsaPrivatePEM = EncodeToMemory ''RSA PRIVATE KEY'' rsaPrivKey in
          (case generatePemCert randInt clock CreateCertificate EncodeToMemory rsaPrivKey domain of
             Fail err \<Rightarrow> Fail err
           | Panic m \<Rightarrow> Panic m
           | Return tempCertPEM \<Rightarrow> ofResult (X509KeyPair tempCertPEM rsaPrivatePEM)))"

section \<open>Backend registry (backend.go)\<close>

text \<open>
  The registry maps a name to its factory; a factory is represented by what it returns
  when called: a backend or nil, and an error or nil.
\<close>

type_synonym Factory = "backendInterface option \<times> error option"

definition GetBackend ::
  "(string \<rightharpoonup> Factory) \<Rightarrow> string \<Rightarrow> backendInterface option \<times> error option" where
  "GetBackend backends name =
     (case backends name of
        None \<Rightarrow> (None, None)
      | Some f \<Rightarrow> f)"

definition InitBackend ::
  "(string \<rightharpoonup> Factory) \<Rightarrow> string \<Rightarrow> backendInterface option \<times> error option" where
  "InitBackend backends name =
     (if name = [] then (None, None)
      else (case GetBackend backends name of
              (backend, Some err) \<Rightarrow> (None, Some (CouldNotInitBackend name err))
            | (None, None) \<Rightarrow> (None, Some (UnknownBackend name))
            | (Some backend, None) \<Rightarrow> (Some backend, None)))"

section \<open>Filesystem backend (backends/fs/fs.go)\<close>

text \<open>
  The operating system and the JSON codec are parameters: \<open>Stat\<close> answers the \<open>Size()\<close> of
  the file or an error, \<open>ReadFile\<close> its content or an error, \<open>Unmarshal\<close> fills the
  account it is given from the bytes.
\<close>

record osFns =
  o_Join :: "string \<Rightarrow> string \<Rightarrow> string"
  o_Stat :: "string \<Rightarrow> error + int"
  o_ReadFile :: "string \<Rightarrow> error + bytes"
  o_Unmarshal :: "bytes \<Rightarrow> Account \<Rightarrow> error + Account"

definition IsNotExist :: "error option \<Rightarrow> bool" where
  "IsNotExist err = (case err of Some (NotExist p) \<Rightarrow> True | _ \<Rightarrow> False)"

definition key :: "osFns \<Rightarrow> string \<Rightarrow> string \<Rightarrow> string" where
  "key os StorageDir domain = o_Join os StorageDir domain @ ''.json''"

definition LoadAccount :: "osFns \<Rightarrow> string \<Rightarrow> string \<Rightarrow> Account option \<times> error option" where
  "LoadAccount os StorageDir domain =
     (let storageFile = key os StorageDir domain;
          fileInfo = o_Stat os storageFile;
          err = (case fileInfo of Inl e \<Rightarrow> Some e | Inr info \<Rightarrow> None)
      in if err \<noteq> None \<or> (case fileInfo of Inl e \<Rightarrow> False | Inr info \<Rightarrow> info = 0)
         then (if IsNotExist err then (None, None) else (None, err))
         else
           (let account = \<lparr>Email = [], Registration = None, PrivateKey = [],
                           DomainsCertificate =
                             Some \<lparr>dc_Certificate = None, dc_Domain = None, dc_TLSCert = None\<rparr>\<rparr>
            in case o_ReadFile os storageFile of
                 Inl err \<Rightarrow> (None, Some err)
               | Inr file \<Rightarrow>
                   (case o_Unmarshal os file account of
                      Inl err \<Rightarrow> (None, Some (ErrorLoadingAccount err))
                    | Inr account' \<Rightarrow> (Some account', None))))"

section \<open>Account creation (package types)\<close>

definition NewAccount ::
  "(nat \<Rightarrow> error + bytes) \<Rightarrow> string \<Rightarrow> Domain option \<Rightarrow> Account outcome" where
  "NewAccount GenerateKey email domain =
     (case GenerateKey 4096 of
        Inl err \<Rightarrow> Fail err
      | Inr privateKey \<Rightarrow>
          Return \<lparr>Email = email,
                  Registration = None,
                  PrivateKey = privateKey,
                  DomainsCertificate =
                    Some \<lparr>dc_Certificate =
                            Some \<lparr>c_Domain = [], c_CertURL = [], c_CertStableURL = [],
                                  c_PrivateKey = [], c_Cert = []\<rparr>,
                          dc_Domain = domain,
                          dc_TLSCert = None\<rparr>\<rparr>)"

section \<open>The orchestrator (acme.go, CreateConfig)\<close>

text \<open>Everything outside the repository that \<open>CreateConfig\<close> reaches.\<close>

record externals =
  x_X509KeyPair :: keyPairFn
  x_GenerateKey :: "nat \<Rightarrow> error + bytes"
  x_randInt :: "int \<Rightarrow> error + int"
  x_CreateCertificate :: "x509Certificate \<Rightarrow> bytes \<Rightarrow> error + bytes"
  x_EncodeToMemory :: "string \<Rightarrow> bytes \<Rightarrow> bytes"
  x_Now :: "nat \<Rightarrow> Time"
  x_backends :: "string \<rightharpoonup> Factory"
  x_NewClient :: "string \<Rightarrow> Account \<Rightarrow> error + acmeClient"
  x_NewDNSProvider :: "string \<Rightarrow> error + ChallengeProvider"

text \<open>
  \<open>tls.Config\<close>: the two fields \<open>CreateConfig\<close> writes. The \<open>GetCertificate\<close> callback
  is a closure over the \<open>ACME\<close> value and the account's \<open>DomainCertificate\<close>;
  the record keeps whether it is installed, and the function \<open>GetCertificate\<close> below
  is its body, applied to the two captured objects as they are when it is called.
\<close>

record tlsConfig =
  Certificates :: "tlsCertificate list"
  GetCertificateSet :: bool

text \<open>
  The goroutines \<open>CreateConfig\<close> starts are recorded, not run: one renewal attempt at
  once, and one on every tick of a ticker of the given period.
\<close>

datatype task = RenewNow | RenewEvery Duration

record run =
  r_acme :: ACME
  r_tlsConfig :: tlsConfig
  r_account :: "Account option"
  r_calls :: "call list"
  r_tasks :: "task list"

definition buildACMEClient :: "externals \<Rightarrow> ACME \<Rightarrow> Account \<Rightarrow> acmeClient outcome" where
  "buildACMEClient ext a account =
     (let caServer = (if length (a_CAServer a) > 0 then a_CAServer a else defaultCAServer)
      in case x_NewClient ext caServer account of
           Inl err \<Rightarrow> Fail err
         | Inr client \<Rightarrow> Return client)"

definition GetCertificate ::
  "ACME \<Rightarrow> DomainCertificate \<Rightarrow> string \<Rightarrow> tlsCertificate option outcome" where
  "GetCertificate a dc ServerName =
     (case a_Domain a of
        None \<Rightarrow> Panic nilDeref
      | Some d \<Rightarrow>
          if ServerName \<noteq> Main d then Fail (ErrorString ''Unknown server name'')
          else Return (dc_TLSCert dc))"

text \<open>
  \<open>CreateConfig\<close> from the point where the account is known (from
  \<open>client, err := a.buildACMEClient(account)\<close> to the end of the function).
\<close>

definition CreateConfig_client ::
  "externals \<Rightarrow> ACME \<Rightarrow> tlsConfig \<Rightarrow> Account \<Rightarrow> bool \<Rightarrow> call list \<Rightarrow> unit outcome \<times> run" where
  "CreateConfig_client ext a tlsConfig account needRegister calls0 =
     (let stop = (\<lambda>r acc calls.
            (r, \<lparr>r_acme = a, r_tlsConfig = tlsConfig, r_account = Some acc,
                 r_calls = calls, r_tasks = []\<rparr>))
      in
      case buildACMEClient ext a account of
        Fail err \<Rightarrow> stop (Fail err) account calls0
      | Panic m \<Rightarrow> stop (Panic m) account calls0
      | Return client \<Rightarrow>
          let calls1 = calls0 @ [ClientExcludeChallenges [''http-01'', ''tls-sni-01'']] in
          (case newDNSProvider (x_NewDNSProvider ext) (a_DNSProvider a) of
             Fail err \<Rightarrow> stop (Fail err) account calls1
           | Panic m \<Rightarrow> stop (Panic m) account calls1
           | Return provider \<Rightarrow>
               let calls2 = calls1 @ [ClientSetChallengeProvider ''dns-01'' provider];
                   registered =
                     (if needRegister then
                        (case cl_Register client of
                           Inl err \<Rightarrow> (Fail err, account, calls2 @ [ClientRegister])
                         | Inr reg \<Rightarrow>
                             (case cl_AgreeToTOS client of
                                Some err \<Rightarrow>
                                  (Fail err, account\<lparr>Registration := Some reg\<rparr>,
                                   calls2 @ [ClientRegister, ClientAgreeToTOS])
                              | None \<Rightarrow>
                                  (Return (), account\<lparr>Registration := Some reg\<rparr>,
                                   calls2 @ [ClientRegister, ClientAgreeToTOS])))
                      else (Return (), account, calls2))
               in
               (case registered of
                  (Fail err, account1, calls3) \<Rightarrow> stop (Fail err) account1 calls3
                | (Panic m, account1, calls3) \<Rightarrow> stop (Panic m) account1 calls3
                | (Return u, account1, calls3) \<Rightarrow>
                    (case DomainsCertificate account1 of
                       None \<Rightarrow> stop (Panic nilDeref) account1 calls3
                     | Some dc \<Rightarrow>
                         (case dc_Certificate dc of
                            None \<Rightarrow> stop (Panic nilDeref) account1 calls3
                          | Some c \<Rightarrow>
                              let obtained =
                                (if length (c_Cert c) > 0 \<and> length (c_PrivateKey c) > 0
                                 then (Return (), account1, [], [RenewNow])
                                 else
                                   (case retrieveCertificate (x_X509KeyPair ext) a client account1 of
                                      (Fail err, account2, calls) \<Rightarrow> (Fail err, account2, calls, [])
                                    | (Panic m, account2, calls) \<Rightarrow> (Panic m, account2, calls, [])
                                    | (Return cert, account2, calls) \<Rightarrow>
                                        (Return (), account2, calls, [])))
                              in
                              (case obtained of
                                 (Fail err, account2, calls, tasks) \<Rightarrow>
                                   stop (Fail err) account2 (calls3 @ calls)
                               | (Panic m, account2, calls, tasks) \<Rightarrow>
                                   stop (Panic m) account2 (calls3 @ calls)
                               | (Return u, account2, calls, tasks) \<Rightarrow>
                                   (Return (),
                                    \<lparr>r_acme = a,
                                     r_tlsConfig = tlsConfig\<lparr>GetCertificateSet := True\<rparr>,
                                     r_account = Some account2,
                                     r_calls = calls3 @ calls,
                                     r_tasks = tasks @ [RenewEvery (24 * Hour)]\<rparr>)))))))"

text \<open>
  \<open>Logger.Panic\<close> logs and then panics, as the standard logger installed by default does.
\<close>

definition CreateConfig :: "externals \<Rightarrow> ACME \<Rightarrow> tlsConfig \<Rightarrow> unit outcome \<times> run" where
  "CreateConfig ext a tlsConfig =
     (let stop = (\<lambda>r a' acc calls.
            (r, \<lparr>r_acme = a', r_tlsConfig = tlsConfig, r_account = acc,
                 r_calls = calls, r_tasks = []\<rparr>))
      in
      if (case a_Domain a of None \<Rightarrow> True | Some d \<Rightarrow> Main d = [])
      then stop (Panic ''The main domain name must be provided'') a None []
      else
        let main = (case a_Domain a of None \<Rightarrow> [] | Some d \<Rightarrow> Main d) in
        if a_SelfSigned a then
          (case generateSelfSignedCertificate (x_GenerateKey ext) (x_randInt ext) (x_Now ext)
                  (x_CreateCertificate ext) (x_EncodeToMemory ext) (x_X509KeyPair ext) main of
             Fail err \<Rightarrow> stop (Fail err) a None []
           | Panic m \<Rightarrow> stop (Panic m) a None []
           | Return cert \<Rightarrow>
               (Return (),
                \<lparr>r_acme = a, r_tlsConfig = tlsConfig\<lparr>Certificates := [cert]\<rparr>,
                 r_account = None, r_calls = [], r_tasks = []\<rparr>))
        else
          let a1 = (if a_BackendName a = [] then a\<lparr>a_BackendName := ''fs''\<rparr> else a) in
          (case InitBackend (x_backends ext) (a_BackendName a1) of
             (b, Some err) \<Rightarrow> stop (Fail err) a1 None []
           | (b, None) \<Rightarrow>
               let a2 = a1\<lparr>a_backend := b\<rparr> in
               (case b of
                  None \<Rightarrow> stop (Panic nilDeref) a2 None []
                | Some backend \<Rightarrow>
                    let calls0 = [BackendLoadAccount main] in
                    (case b_LoadAccount backend main of
                       (account, Some err) \<Rightarrow> stop (Fail err) a2 None calls0
                     | (Some account, None) \<Rightarrow>
                         (case DomainsCertificate account of
                            None \<Rightarrow> stop (Panic nilDeref) a2 (Some account) calls0
                          | Some dc \<Rightarrow>
                              (case Init (x_X509KeyPair ext) dc of
                                 (Fail err, dc') \<Rightarrow>
                                   stop (Fail err) a2
                                     (Some (account\<lparr>DomainsCertificate := Some dc'\<rparr>)) calls0
                               | (Panic m, dc') \<Rightarrow>
                                   stop (Panic m) a2
                                     (Some (account\<lparr>DomainsCertificate := Some dc'\<rparr>)) calls0
                               | (Return u, dc') \<Rightarrow>
                                   CreateConfig_client ext a2 tlsConfig
                                     (account\<lparr>DomainsCertificate := Some dc'\<rparr>) False calls0))
                     | (None, None) \<Rightarrow>
                         (case NewAccount (x_GenerateKey ext) (a_Email a2) (a_Domain a2) of
                            Fail err \<Rightarrow> stop (Fail err) a2 None calls0
                          | Panic m \<Rightarrow> stop (Panic m) a2 None calls0
                          | Return account \<Rightarrow>
                              CreateConfig_client ext a2 tlsConfig account True calls0)))))"

section \<open>The invariant of the specification\<close>

text \<open>
  The specification's invariant on a \<open>DomainCertificate\<close>, in its words: the derived
  TLS object is the parse of the current \<open>Certificate\<close> bytes. Where the bytes have no
  parse (or there is no certificate), the most it can ask is that there is no derived
  object.
\<close>

definition derivedFromCertificate :: "keyPairFn \<Rightarrow> DomainCertificate \<Rightarrow> bool" where
  "derivedFromCertificate X509KeyPair dc =
     (case dc_Certificate dc of
        None \<Rightarrow> dc_TLSCert dc = None
      | Some c \<Rightarrow>
          (case X509KeyPair (c_Cert c) (c_PrivateKey c) of
             Inl err \<Rightarrow> dc_TLSCert dc = None
           | Inr cert \<Rightarrow> dc_TLSCert dc = Some cert))"

section \<open>Sample collaborators and values\<close>

text \<open>
  Concrete stand-ins for the collaborators, on which the theorems below are exercised.
  A sample DER segment is one byte, the day (counted from time 0) on which it expires;
  the empty segment does not parse. A sample key pair is accepted when neither part is
  empty.
\<close>

definition sampleParse :: parseFn where
  "sampleParse c =
     (case c of
        [] \<Rightarrow> Inl (External ''asn1: syntax error'')
      | b # bs \<Rightarrow>
          Inr \<lparr>SerialNumber = 1, CommonName = [], NotBefore = 0,
               NotAfter = int (unat b) * (24 * Hour),
               KeyUsage = 0, BasicConstraintsValid = False, DNSNames = []\<rparr>)"

definition sampleKeyPair :: keyPairFn where
  "sampleKeyPair certPEM keyPEM =
     (if certPEM = [] \<or> keyPEM = [] then Inl (External ''tls: failed to find any PEM data'')
      else Inr \<lparr>t_Certificate = [certPEM], t_PrivateKey = keyPEM\<rparr>)"

definition sampleDomain :: Domain where
  "sampleDomain = \<lparr>Main = ''a.example'', SANs = None\<rparr>"

definition sampleCertificate :: "8 word \<Rightarrow> Certificate" where
  "sampleCertificate day =
     \<lparr>c_Domain = ''a.example'', c_CertURL = ''url'', c_CertStableURL = ''stable'',
      c_PrivateKey = [1], c_Cert = [day]\<rparr>"

definition brokenCertificate :: Certificate where
  "brokenCertificate =
     \<lparr>c_Domain = ''a.example'', c_CertURL = ''url'', c_CertStableURL = ''stable'',
      c_PrivateKey = [], c_Cert = []\<rparr>"

definition foreignCertificate :: Certificate where
  "foreignCertificate =
     \<lparr>c_Domain = ''b.example'', c_CertURL = ''url2'', c_CertStableURL = ''stable2'',
      c_PrivateKey = [2], c_Cert = [90]\<rparr>"

definition sampleResource :: "8 word \<Rightarrow> CertificateResource" where
  "sampleResource day =
     \<lparr>r_Domain = ''a.example'', r_CertURL = ''url'', r_CertStableURL = ''stable'',
      r_PrivateKey = [1], r_Certificate = [day]\<rparr>"

definition foreignResource :: CertificateResource where
  "foreignResource =
     \<lparr>r_Domain = ''b.example'', r_CertURL = ''url2'', r_CertStableURL = ''stable2'',
      r_PrivateKey = [2], r_Certificate = [90]\<rparr>"

definition sampleDC :: "8 word \<Rightarrow> DomainCertificate" where
  "sampleDC day =
     \<lparr>dc_Certificate = Some (sampleCertificate day),
      dc_Domain = Some sampleDomain,
      dc_TLSCert = Some \<lparr>t_Certificate = [[day]], t_PrivateKey = [1]\<rparr>\<rparr>"

definition sampleAccount :: "8 word \<Rightarrow> Account" where
  "sampleAccount day =
     \<lparr>Email = ''ops@a.example'', Registration = Some ''reg'', PrivateKey = [7],
      DomainsCertificate = Some (sampleDC day)\<rparr>"

definition sampleBackend :: "error option \<Rightarrow> backendInterface" where
  "sampleBackend saved =
     \<lparr>b_LoadAccount = (\<lambda>domain. (None, None)),
      b_Name = ''sample'',
      b_SaveAccount = (\<lambda>account. saved)\<rparr>"

definition sampleClient :: "CertificateResource \<Rightarrow> acmeClient" where
  "sampleClient issued =
     \<lparr>cl_ObtainCertificate = (\<lambda>domains bundle. (issued, [])),
      cl_RenewCertificate = (\<lambda>resource bundle. Inr issued),
      cl_Register = Inr ''reg'',
      cl_AgreeToTOS = None\<rparr>"

definition sampleACME :: "backendInterface option \<Rightarrow> string \<Rightarrow> ACME" where
  "sampleACME b main =
     \<lparr>a_backend = b,
      a_Domain = Some \<lparr>Main = main, SANs = None\<rparr>,
      a_BackendName = [],
      a_CAServer = [],
      a_DNSProvider = ''route53'',
      a_Email = ''ops@a.example'',
      a_SelfSigned = False\<rparr>"

definition sampleExternals :: "(string \<rightharpoonup> Factory) \<Rightarrow> externals" where
  "sampleExternals registry =
     \<lparr>x_X509KeyPair = sampleKeyPair,
      x_GenerateKey = (\<lambda>bits. Inr [7]),
      x_randInt = (\<lambda>limit. Inr 5),
      x_CreateCertificate = (\<lambda>template priv. Inr [30]),
      x_EncodeToMemory = (\<lambda>blockType der. der),
      x_Now = (\<lambda>k. 0),
      x_backends = registry,
      x_NewClient = (\<lambda>caServer account. Inr (sampleClient (sampleResource 90))),
      x_NewDNSProvider = (\<lambda>name. Inr name)\<rparr>"

definition sampleOS :: "(string \<Rightarrow> error + int) \<Rightarrow> osFns" where
  "sampleOS stat =
     \<lparr>o_Join = (\<lambda>dir name. dir @ ''/'' @ name),
      o_Stat = stat,
      o_ReadFile = (\<lambda>path. Inr []),
      o_Unmarshal = (\<lambda>file account. Inr account)\<rparr>"

definition emptyTLSConfig :: tlsConfig where
  "emptyTLSConfig = \<lparr>Certificates = [], GetCertificateSet = False\<rparr>"

text \<open>The filesystem backend over a given operating system, with a save that succeeds.\<close>

definition sampleFsBackend :: "osFns \<Rightarrow> string \<Rightarrow> backendInterface" where
  "sampleFsBackend os StorageDir =
     \<lparr>b_LoadAccount = LoadAccount os StorageDir,
      b_Name = ''fs'',
      b_SaveAccount = (\<lambda>account. None)\<rparr>"

section \<open>Proof tools\<close>

lemmas sample_defs = sampleParse_def sampleKeyPair_def sampleDomain_def sampleCertificate_def
  brokenCertificate_def foreignCertificate_def sampleResource_def foreignResource_def
  sampleDC_def sampleAccount_def sampleBackend_def sampleClient_def sampleACME_def
  sampleExternals_def sampleOS_def emptyTLSConfig_def sampleFsBackend_def

section \<open>Expiration policy: \<open>needsUpdate\<close>\<close>

text \<open>
  With the readings of the clock left free, the loop answers true exactly when some
  segment fails to parse or expires before the reading taken for it plus seven days.
\<close>

lemma ex_less_Suc_shift: "(\<exists>i<Suc n. Q i) \<longleftrightarrow> Q 0 \<or> (\<exists>i<n. Q (Suc i))"
  by (auto simp: less_Suc_eq_0_disj)

lemma needsUpdateFrom_clock:
  "needsUpdateFrom P clock k cs \<longleftrightarrow>
     (\<exists>i<length cs. case P (cs ! i) of Inl err \<Rightarrow> True
                       | Inr crt \<Rightarrow> NotAfter crt < clock (k + i) + 24 * 7 * Hour)"
proof (induction cs arbitrary: k)
  case Nil
  then show ?case by simp
next
  case (Cons c cs)
  show ?case
    by (cases "P c")
       (simp_all add: ex_less_Suc_shift Cons.IH Before_def Add_def cong: sum.case_cong)
qed

lemma needsUpdateFrom_const:
  "needsUpdateFrom P (\<lambda>k. now) k cs \<longleftrightarrow>
     (\<exists>c\<in>set cs. case P c of Inl err \<Rightarrow> True
                    | Inr crt \<Rightarrow> NotAfter crt < now + 7 * 24 * Hour)"
  by (induction cs arbitrary: k) (auto simp: Before_def Add_def split: sum.splits)

text \<open>
  At a clock that stands still during the call, the readings are one instant \<open>now\<close>;
  and when every reading lies between two instants, the answer lies between the answers
  at those two instants.
\<close>

lemma needsUpdate_constant_clock:
  "needsUpdate P (\<lambda>k. now) cert \<longleftrightarrow>
      (\<exists>c\<in>set (t_Certificate cert).
         case P c of Inl err \<Rightarrow> True
         | Inr crt \<Rightarrow> NotAfter crt < now + 7 * 24 * Hour)"
  unfolding needsUpdate_def by (rule needsUpdateFrom_const)

lemma all_less_Suc_shift: "(\<forall>i<Suc n. Q i) \<longleftrightarrow> Q 0 \<and> (\<forall>i<n. Q (Suc i))"
  by (auto simp: less_Suc_eq_0_disj)

lemma needsUpdate_between:
  assumes lo: "\<And>k. t0 \<le> clock k" and hi: "\<And>k. clock k \<le> t1"
  shows "(needsUpdate P (\<lambda>k. t0) cert \<longrightarrow> needsUpdate P clock cert)
       \<and> (needsUpdate P clock cert \<longrightarrow> needsUpdate P (\<lambda>k. t1) cert)"
proof -
  have up: "x < t0 + d \<Longrightarrow> x < clock k + d" for x d k
    using lo [of k] by linarith
  have down: "x < clock k + d \<Longrightarrow> x < t1 + d" for x d k
    using hi [of k] by linarith
  have 1: "needsUpdateFrom P (\<lambda>k. t0) j cs \<Longrightarrow> needsUpdateFrom P clock k cs" for j k cs
    by (induction cs arbitrary: j k)
       (auto simp: Before_def Add_def split: sum.splits if_splits dest: up)
  have 2: "needsUpdateFrom P clock k cs \<Longrightarrow> needsUpdateFrom P (\<lambda>k. t1) j cs" for j k cs
    by (induction cs arbitrary: j k)
       (auto simp: Before_def Add_def split: sum.splits if_splits dest: down)
  show ?thesis unfolding needsUpdate_def using 1 2 by blast
qed

text \<open>
  Claim C2. \<open>needsUpdate\<close> returns true if and only if the chain has a segment that
  fails to parse as a DER certificate or a parsed segment whose \<open>NotAfter\<close> is strictly
  earlier than now plus 7 days, now being the reading of \<open>time.Now()\<close> taken for that
  segment (\<open>clock i\<close> for the segment at index \<open>i\<close>); it returns false exactly when
  every segment parses and has \<open>NotAfter\<close> at or after that reading plus 7 days.
\<close>

theorem needsUpdate_iff:
  "(needsUpdate P clock cert \<longleftrightarrow>
      (\<exists>i<length (t_Certificate cert).
         case P (t_Certificate cert ! i) of Inl err \<Rightarrow> True
         | Inr crt \<Rightarrow> NotAfter crt < clock i + 7 * 24 * Hour))
   \<and> (\<not> needsUpdate P clock cert \<longleftrightarrow>
      (\<forall>i<length (t_Certificate cert).
         \<exists>crt. P (t_Certificate cert ! i) = Inr crt \<and> clock i + 7 * 24 * Hour \<le> NotAfter crt))"
proof -
  let ?bad = "\<lambda>i. case P (t_Certificate cert ! i) of Inl err \<Rightarrow> True
                    | Inr crt \<Rightarrow> NotAfter crt < clock i + 7 * 24 * Hour"
  have a: "needsUpdate P clock cert \<longleftrightarrow> (\<exists>i<length (t_Certificate cert). ?bad i)"
    unfolding needsUpdate_def using needsUpdateFrom_clock [of P clock 0 "t_Certificate cert"]
    by (simp cong: sum.case_cong)
  have "\<not> ?bad i \<longleftrightarrow>
          (\<exists>crt. P (t_Certificate cert ! i) = Inr crt \<and> clock i + 7 * 24 * Hour \<le> NotAfter crt)"
    for i
    by (cases "P (t_Certificate cert ! i)") auto
  then have b: "(\<not> (\<exists>i<length (t_Certificate cert). ?bad i)) \<longleftrightarrow>
      (\<forall>i<length (t_Certificate cert).
         \<exists>crt. P (t_Certificate cert ! i) = Inr crt \<and> clock i + 7 * 24 * Hour \<le> NotAfter crt)"
    by simp
  show ?thesis using a b by blast
qed

text \<open>
  At a clock standing at time 0: a chain with a segment expiring on day 3 and a chain
  with an unparsable segment need renewal; a chain whose segments expire on days 30 and
  7 does not. At a clock that advances by a nanosecond with each reading, the segment
  expiring on day 7 is read at 1 ns and the chain needs renewal.
\<close>

theorem needsUpdate_iff_witness:
  "needsUpdate sampleParse (\<lambda>k. 0) \<lparr>t_Certificate = [[30], [3]], t_PrivateKey = []\<rparr>
   \<and> needsUpdate sampleParse (\<lambda>k. 0) \<lparr>t_Certificate = [[30], []], t_PrivateKey = []\<rparr>
   \<and> \<not> needsUpdate sampleParse (\<lambda>k. 0) \<lparr>t_Certificate = [[30], [7]], t_PrivateKey = []\<rparr>
   \<and> needsUpdate sampleParse (\<lambda>k. int k) \<lparr>t_Certificate = [[30], [7]], t_PrivateKey = []\<rparr>"
proof -
  have 1: "needsUpdate sampleParse (\<lambda>k. 0) \<lparr>t_Certificate = [[30], [3]], t_PrivateKey = []\<rparr>"
    by (subst needsUpdate_iff [THEN conjunct1])
       (simp add: sampleParse_def Hour_def Nanosecond_def ex_less_Suc_shift)
  have 2: "needsUpdate sampleParse (\<lambda>k. 0) \<lparr>t_Certificate = [[30], []], t_PrivateKey = []\<rparr>"
    by (subst needsUpdate_iff [THEN conjunct1])
       (simp add: sampleParse_def Hour_def Nanosecond_def ex_less_Suc_shift)
  have 3: "\<not> needsUpdate sampleParse (\<lambda>k. 0) \<lparr>t_Certificate = [[30], [7]], t_PrivateKey = []\<rparr>"
    by (subst needsUpdate_iff [THEN conjunct2])
       (simp add: sampleParse_def Hour_def Nanosecond_def all_less_Suc_shift)
  have 4: "needsUpdate sampleParse (\<lambda>k. int k) \<lparr>t_Certificate = [[30], [7]], t_PrivateKey = []\<rparr>"
    by (subst needsUpdate_iff [THEN conjunct1])
       (simp add: sampleParse_def Hour_def Nanosecond_def ex_less_Suc_shift)
  from 1 2 3 4 show ?thesis by blast
qed

section \<open>The derived TLS object\<close>

lemma Init_cases:
  "Init K dc =
     (case dc_Certificate dc of
        None \<Rightarrow> (Panic nilDeref, dc)
      | Some c \<Rightarrow>
          (case K (c_Cert c) (c_PrivateKey c) of
             Inl err \<Rightarrow> (Fail err, dc)
           | Inr cert \<Rightarrow> (Return (), dc\<lparr>dc_TLSCert := Some cert\<rparr>)))"
  by (simp add: Init_def tlsCert_def split: option.splits sum.splits)

lemma Init_success_derived:
  "fst (Init K dc) = Return () \<Longrightarrow> derivedFromCertificate K (snd (Init K dc))"
  by (auto simp: Init_cases derivedFromCertificate_def split: option.splits sum.splits)

lemma Init_failure_unchanged:
  "fst (Init K dc) \<noteq> Return () \<Longrightarrow> snd (Init K dc) = dc"
  by (auto simp: Init_cases split: option.splits sum.splits)

lemma AddCertificate_cases:
  "AddCertificate K dc (Some c) domain =
     (case K (c_Cert c) (c_PrivateKey c) of
        Inl err \<Rightarrow> (Fail err, dc\<lparr>dc_Domain := domain, dc_Certificate := Some c\<rparr>)
      | Inr cert \<Rightarrow>
          (Return (),
           dc\<lparr>dc_Domain := domain, dc_Certificate := Some c, dc_TLSCert := Some cert\<rparr>))"
  by (simp add: AddCertificate_def Init_cases split: sum.splits)

lemma RenewCertificate_cases:
  "RenewCertificate K dc (Some c) (dc_Domain dc) =
     (case K (c_Cert c) (c_PrivateKey c) of
        Inl err \<Rightarrow> (Fail err, dc\<lparr>dc_Certificate := Some c\<rparr>)
      | Inr cert \<Rightarrow> (Return (), dc\<lparr>dc_Certificate := Some c, dc_TLSCert := Some cert\<rparr>))"
  by (simp add: RenewCertificate_def Init_cases split: sum.splits)

text \<open>
  Claim C1, as amended. \<open>Init\<close>, \<open>AddCertificate\<close> and \<open>RenewCertificate\<close> (on a
  matching domain) parse the key pair of the certificate they are left with. When it
  parses, they return without error and the derived TLS object is that parse; whenever
  one of them returns without error, the derived TLS object is the parse of the current
  \<open>Certificate\<close> bytes. When it does not parse, they return the parse error and do
  not touch the derived TLS object: \<open>Init\<close> leaves the receiver as it was, and
  \<open>AddCertificate\<close> and \<open>RenewCertificate\<close> leave the newly assigned \<open>Certificate\<close>
  next to the previous TLS object, so that, when there was one, the two differ.
\<close>

theorem TLSCert_rederived_on_success:
  "(fst (Init K dc) = Return () \<longrightarrow> derivedFromCertificate K (snd (Init K dc)))
   \<and> (fst (AddCertificate K dc acmeCert domain) = Return () \<longrightarrow>
        derivedFromCertificate K (snd (AddCertificate K dc acmeCert domain)))
   \<and> (fst (RenewCertificate K dc acmeCert domain) = Return () \<longrightarrow>
        derivedFromCertificate K (snd (RenewCertificate K dc acmeCert domain)))
   \<and> (fst (Init K dc) \<noteq> Return () \<longrightarrow> snd (Init K dc) = dc)
   \<and> (fst (AddCertificate K dc acmeCert domain) \<noteq> Return () \<longrightarrow>
        snd (AddCertificate K dc acmeCert domain)
          = dc\<lparr>dc_Domain := domain, dc_Certificate := acmeCert\<rparr>)
   \<and> (fst (RenewCertificate K dc acmeCert domain) \<noteq> Return () \<and> domain = dc_Domain dc \<longrightarrow>
        snd (RenewCertificate K dc acmeCert domain) = dc\<lparr>dc_Certificate := acmeCert\<rparr>)
   \<and> (K (c_Cert c) (c_PrivateKey c) = Inr cert \<longrightarrow>
        (dc_Certificate dc = Some c \<longrightarrow>
           Init K dc = (Return (), dc\<lparr>dc_TLSCert := Some cert\<rparr>))
        \<and> AddCertificate K dc (Some c) domain =
            (Return (),
             dc\<lparr>dc_Domain := domain, dc_Certificate := Some c, dc_TLSCert := Some cert\<rparr>)
        \<and> RenewCertificate K dc (Some c) (dc_Domain dc) =
            (Return (), dc\<lparr>dc_Certificate := Some c, dc_TLSCert := Some cert\<rparr>))
   \<and> (K (c_Cert c) (c_PrivateKey c) = Inl err \<longrightarrow>
        (dc_Certificate dc = Some c \<longrightarrow> Init K dc = (Fail err, dc))
        \<and> AddCertificate K dc (Some c) domain =
            (Fail err, dc\<lparr>dc_Domain := domain, dc_Certificate := Some c\<rparr>)
        \<and> RenewCertificate K dc (Some c) (dc_Domain dc) =
            (Fail err, dc\<lparr>dc_Certificate := Some c\<rparr>)
        \<and> (dc_TLSCert dc \<noteq> None \<longrightarrow>
             \<not> derivedFromCertificate K (snd (AddCertificate K dc (Some c) domain))
             \<and> \<not> derivedFromCertificate K (snd (RenewCertificate K dc (Some c) (dc_Domain dc)))))"
proof -
  have 1: "fst (Init K dc) = Return () \<longrightarrow> derivedFromCertificate K (snd (Init K dc))"
    using Init_success_derived by blast
  have 2: "fst (AddCertificate K dc acmeCert domain) = Return () \<longrightarrow>
        derivedFromCertificate K (snd (AddCertificate K dc acmeCert domain))"
    unfolding AddCertificate_def using Init_success_derived by blast
  have 3: "fst (RenewCertificate K dc acmeCert domain) = Return () \<longrightarrow>
        derivedFromCertificate K (snd (RenewCertificate K dc acmeCert domain))"
    using Init_success_derived [of K "dc\<lparr>dc_Certificate := acmeCert\<rparr>"]
    by (auto simp: RenewCertificate_def split: if_splits option.splits)
  have 4: "fst (Init K dc) \<noteq> Return () \<longrightarrow> snd (Init K dc) = dc"
    using Init_failure_unchanged by blast
  have 5: "fst (AddCertificate K dc acmeCert domain) \<noteq> Return () \<longrightarrow>
        snd (AddCertificate K dc acmeCert domain)
          = dc\<lparr>dc_Domain := domain, dc_Certificate := acmeCert\<rparr>"
    unfolding AddCertificate_def using Init_failure_unchanged by blast
  have 6: "fst (RenewCertificate K dc acmeCert domain) \<noteq> Return () \<and> domain = dc_Domain dc \<longrightarrow>
        snd (RenewCertificate K dc acmeCert domain) = dc\<lparr>dc_Certificate := acmeCert\<rparr>"
    using Init_failure_unchanged [of K "dc\<lparr>dc_Certificate := acmeCert\<rparr>"]
    by (auto simp: RenewCertificate_def)
  have 7: "K (c_Cert c) (c_PrivateKey c) = Inr cert \<longrightarrow>
        (dc_Certificate dc = Some c \<longrightarrow>
           Init K dc = (Return (), dc\<lparr>dc_TLSCert := Some cert\<rparr>))
        \<and> AddCertificate K dc (Some c) domain =
            (Return (),
             dc\<lparr>dc_Domain := domain, dc_Certificate := Some c, dc_TLSCert := Some cert\<rparr>)
        \<and> RenewCertificate K dc (Some c) (dc_Domain dc) =
            (Return (), dc\<lparr>dc_Certificate := Some c, dc_TLSCert := Some cert\<rparr>)"
    by (simp add: Init_cases AddCertificate_cases RenewCertificate_cases)
  have 8: "K (c_Cert c) (c_PrivateKey c) = Inl err \<longrightarrow>
        (dc_Certificate dc = Some c \<longrightarrow> Init K dc = (Fail err, dc))
        \<and> AddCertificate K dc (Some c) domain =
            (Fail err, dc\<lparr>dc_Domain := domain, dc_Certificate := Some c\<rparr>)
        \<and> RenewCertificate K dc (Some c) (dc_Domain dc) =
            (Fail err, dc\<lparr>dc_Certificate := Some c\<rparr>)
        \<and> (dc_TLSCert dc \<noteq> None \<longrightarrow>
             \<not> derivedFromCertificate K (snd (AddCertificate K dc (Some c) domain))
             \<and> \<not> derivedFromCertificate K (snd (RenewCertificate K dc (Some c) (dc_Domain dc))))"
    by (simp add: Init_cases AddCertificate_cases RenewCertificate_cases
          derivedFromCertificate_def)
  from 1 2 3 4 5 6 7 8 show ?thesis by blast
qed

text \<open>
  Adding a certificate that parses succeeds and leaves the TLS object derived from it;
  renewing with bytes that do not parse returns the parse error and only replaces the
  \<open>Certificate\<close>.
\<close>

theorem TLSCert_rederived_on_success_witness:
  "AddCertificate sampleKeyPair (sampleDC 30) (Some (sampleCertificate 90)) (Some sampleDomain)
     = (Return (), sampleDC 90)
   \<and> derivedFromCertificate sampleKeyPair (sampleDC 90)
   \<and> RenewCertificate sampleKeyPair (sampleDC 30) (Some brokenCertificate) (Some sampleDomain)
       = (Fail (External ''tls: failed to find any PEM data''),
          (sampleDC 30)\<lparr>dc_Certificate := Some brokenCertificate\<rparr>)
   \<and> \<not> derivedFromCertificate sampleKeyPair
         ((sampleDC 30)\<lparr>dc_Certificate := Some brokenCertificate\<rparr>)"
proof -
  have ok: "sampleKeyPair (c_Cert (sampleCertificate 90)) (c_PrivateKey (sampleCertificate 90))
              = Inr \<lparr>t_Certificate = [[90]], t_PrivateKey = [1]\<rparr>"
    by (simp add: sampleKeyPair_def sampleCertificate_def)
  have bad: "sampleKeyPair (c_Cert brokenCertificate) (c_PrivateKey brokenCertificate)
              = Inl (External ''tls: failed to find any PEM data'')"
    by (simp add: sampleKeyPair_def brokenCertificate_def)
  have d: "dc_Domain (sampleDC 30) = Some sampleDomain" and t: "dc_TLSCert (sampleDC 30) \<noteq> None"
    by (simp_all add: sampleDC_def)
  have e: "(sampleDC 30)\<lparr>dc_Domain := Some sampleDomain,
             dc_Certificate := Some (sampleCertificate 90),
             dc_TLSCert := Some \<lparr>t_Certificate = [[90]], t_PrivateKey = [1]\<rparr>\<rparr> = sampleDC 90"
    by (simp add: sampleDC_def)
  from TLSCert_rederived_on_success
         [of sampleKeyPair "sampleDC 30" "Some (sampleCertificate 90)" "Some sampleDomain"
             "sampleCertificate 90" "\<lparr>t_Certificate = [[90]], t_PrivateKey = [1]\<rparr>"] ok
  have 1: "AddCertificate sampleKeyPair (sampleDC 30) (Some (sampleCertificate 90))
             (Some sampleDomain) = (Return (), sampleDC 90)"
    unfolding e by blast
  from TLSCert_rederived_on_success
         [of sampleKeyPair "sampleDC 30" "Some (sampleCertificate 90)" "Some sampleDomain"] 1
  have 2: "derivedFromCertificate sampleKeyPair (sampleDC 90)"
    by simp
  from TLSCert_rederived_on_success
         [of sampleKeyPair "sampleDC 30" "Some brokenCertificate" "Some sampleDomain"
             brokenCertificate _ "External ''tls: failed to find any PEM data''"] bad t
  have 3: "RenewCertificate sampleKeyPair (sampleDC 30) (Some brokenCertificate)
             (dc_Domain (sampleDC 30))
       = (Fail (External ''tls: failed to find any PEM data''),
          (sampleDC 30)\<lparr>dc_Certificate := Some brokenCertificate\<rparr>)
     \<and> \<not> derivedFromCertificate sampleKeyPair
         (snd (RenewCertificate sampleKeyPair (sampleDC 30) (Some brokenCertificate)
                 (dc_Domain (sampleDC 30))))"
    by blast
  from 1 2 3 show ?thesis unfolding d by auto
qed

text \<open>
  Claim C1 as stated fails: on a \<open>DomainCertificate\<close> whose TLS object is derived from
  its certificate, \<open>AddCertificate\<close> with bytes that do not parse returns the parse
  error, stores the new \<open>Certificate\<close> and keeps the TLS object of the previous one.
\<close>

theorem TLSCert_diverges_counterexample:
  "derivedFromCertificate sampleKeyPair (sampleDC 30)
   \<and> AddCertificate sampleKeyPair (sampleDC 30) (Some brokenCertificate) (Some sampleDomain)
       = (Fail (External ''tls: failed to find any PEM data''),
          \<lparr>dc_Certificate = Some brokenCertificate,
           dc_Domain = Some sampleDomain,
           dc_TLSCert = Some \<lparr>t_Certificate = [[30]], t_PrivateKey = [1]\<rparr>\<rparr>)
   \<and> \<not> derivedFromCertificate sampleKeyPair
         (snd (AddCertificate sampleKeyPair (sampleDC 30) (Some brokenCertificate)
                 (Some sampleDomain)))"
  by (simp add: AddCertificate_def Init_cases derivedFromCertificate_def sample_defs)

section \<open>\<open>RenewCertificate\<close> and the domain\<close>

text \<open>
  Claim C4, as amended. \<open>RenewCertificate\<close> called with a \<open>domain\<close> argument that is not
  deeply equal to the current \<open>Domain\<close> of the \<open>DomainCertificate\<close> returns the error
  "Certificate to renew not found for domain" with the main name of the argument (it
  panics when the argument is nil), and leaves the \<open>DomainCertificate\<close> unchanged. The
  \<open>Domain\<close> field of the certificate passed in is not looked at.
\<close>

theorem RenewCertificate_domain_mismatch:
  "domain \<noteq> dc_Domain dc \<Longrightarrow>
   RenewCertificate K dc acmeCert domain =
     ((case domain of
         None \<Rightarrow> Panic nilDeref
       | Some d \<Rightarrow> Fail (ErrorString (''Certificate to renew not found for domain '' @ Main d))),
      dc)"
  by (simp add: RenewCertificate_def split: option.splits)

theorem RenewCertificate_domain_mismatch_witness:
  "RenewCertificate sampleKeyPair (sampleDC 30) (Some foreignCertificate)
       (Some \<lparr>Main = ''b.example'', SANs = None\<rparr>) =
     (Fail (ErrorString ''Certificate to renew not found for domain b.example''), sampleDC 30)"
proof -
  have h: "Some \<lparr>Main = ''b.example'', SANs = None\<rparr> \<noteq> dc_Domain (sampleDC 30)"
    by (simp add: sample_defs)
  show ?thesis
    using RenewCertificate_domain_mismatch [OF h, of sampleKeyPair "Some foreignCertificate"]
    by simp
qed

text \<open>
  Claim C4 as stated fails: a certificate whose \<open>Domain\<close> is \<open>b.example\<close>, passed with the
  \<open>DomainCertificate\<close>'s own domain \<open>a.example\<close> as the \<open>domain\<close> argument, is accepted
  and replaces the existing certificate.
\<close>

theorem RenewCertificate_foreign_counterexample:
  "c_Domain foreignCertificate \<noteq> Main sampleDomain
   \<and> dc_Domain (sampleDC 30) = Some sampleDomain
   \<and> RenewCertificate sampleKeyPair (sampleDC 30) (Some foreignCertificate) (Some sampleDomain)
       = (Return (),
          \<lparr>dc_Certificate = Some foreignCertificate,
           dc_Domain = Some sampleDomain,
           dc_TLSCert = Some \<lparr>t_Certificate = [[90]], t_PrivateKey = [2]\<rparr>\<rparr>)"
  by (simp add: RenewCertificate_def Init_cases sample_defs)

section \<open>Renewal\<close>

text \<open>
  Claim C7. For an account whose certificate does not need renewal,
  \<open>renewCertificate\<close> makes no call to the validation client and none to the storage
  backend, leaves the account unchanged and returns no error; so a second call in
  succession, on a certificate still fresh at its time, makes no call either.
\<close>

theorem renewCertificate_fresh_noop:
  assumes "DomainsCertificate account = Some dc"
    and "dc_TLSCert dc = Some cert"
    and "\<not> needsUpdate P clock cert"
  shows "renewCertificate K P clock a client account = (Return (), account, [])
     \<and> (\<not> needsUpdate P clock' cert \<longrightarrow>
          renewCertificate K P clock' a' client'
            (fst (snd (renewCertificate K P clock a client account)))
          = (Return (), account, []))"
  using assms by (simp add: renewCertificate_def)

theorem renewCertificate_fresh_noop_witness:
  "renewCertificate sampleKeyPair sampleParse (\<lambda>k. 0)
       (sampleACME (Some (sampleBackend None)) ''a.example'')
       (sampleClient foreignResource) (sampleAccount 30)
     = (Return (), sampleAccount 30, [])
   \<and> renewCertificate sampleKeyPair sampleParse (\<lambda>k. 24 * Hour)
       (sampleACME (Some (sampleBackend None)) ''a.example'')
       (sampleClient foreignResource)
       (fst (snd (renewCertificate sampleKeyPair sampleParse (\<lambda>k. 0)
          (sampleACME (Some (sampleBackend None)) ''a.example'')
          (sampleClient foreignResource) (sampleAccount 30))))
     = (Return (), sampleAccount 30, [])"
proof -
  have 1: "DomainsCertificate (sampleAccount 30) = Some (sampleDC 30)"
    by (simp add: sampleAccount_def)
  have 2: "dc_TLSCert (sampleDC 30) = Some \<lparr>t_Certificate = [[30]], t_PrivateKey = [1]\<rparr>"
    by (simp add: sampleDC_def)
  have 3: "\<not> needsUpdate sampleParse (\<lambda>k. 0) \<lparr>t_Certificate = [[30]], t_PrivateKey = [1]\<rparr>"
    by (simp add: needsUpdate_def sampleParse_def Before_def Add_def Hour_def Nanosecond_def)
  have 4: "\<not> needsUpdate sampleParse (\<lambda>k. 24 * Hour) \<lparr>t_Certificate = [[30]], t_PrivateKey = [1]\<rparr>"
    by (simp add: needsUpdate_def sampleParse_def Before_def Add_def Hour_def Nanosecond_def)
  from renewCertificate_fresh_noop [OF 1 2 3, of sampleKeyPair
      "sampleACME (Some (sampleBackend None)) ''a.example''" "sampleClient foreignResource"
      "\<lambda>k. 24 * Hour"
      "sampleACME (Some (sampleBackend None)) ''a.example''" "sampleClient foreignResource"] 4
  show ?thesis by blast
qed

text \<open>
  Claim C3, as amended. When renewal is due, the validation client returns a renewed
  resource and its key pair parses, \<open>renewCertificate\<close> replaces the account's
  certificate and TLS object by the renewed ones and saves the account, whatever the
  \<open>Domain\<close> of the renewed resource is: \<open>RenewCertificate\<close> is called with the
  \<open>DomainCertificate\<close>'s own \<open>Domain\<close> as its \<open>domain\<close> argument, so its domain check
  passes. The result is the result of the save.
\<close>

theorem renewCertificate_attaches_renewed:
  assumes "DomainsCertificate account = Some dc"
    and "dc_TLSCert dc = Some cert"
    and "needsUpdate P clock cert"
    and "dc_Certificate dc = Some c"
    and "resource = \<lparr>r_Domain = c_Domain c, r_CertURL = c_CertURL c,
                      r_CertStableURL = c_CertStableURL c, r_PrivateKey = c_PrivateKey c,
                      r_Certificate = c_Cert c\<rparr>"
    and "cl_RenewCertificate client resource False = Inr renewed"
    and "K (r_Certificate renewed) (r_PrivateKey renewed) = Inr t"
    and "a_backend a = Some b"
    and "account' = account\<lparr>DomainsCertificate :=
           Some (dc\<lparr>dc_Certificate :=
                       Some \<lparr>c_Domain = r_Domain renewed, c_CertURL = r_CertURL renewed,
                             c_CertStableURL = r_CertStableURL renewed,
                             c_PrivateKey = r_PrivateKey renewed,
                             c_Cert = r_Certificate renewed\<rparr>,
                    dc_TLSCert := Some t\<rparr>)\<rparr>"
  shows "renewCertificate K P clock a client account =
     ((case b_SaveAccount b account' of Some err \<Rightarrow> Fail err | None \<Rightarrow> Return ()),
      account',
      [ClientRenewCertificate resource False, BackendSaveAccount account'])"
  using assms
  by (simp add: renewCertificate_def RenewCertificate_def Init_def tlsCert_def Let_def
           split: option.splits)

theorem renewCertificate_attaches_renewed_witness:
  "renewCertificate sampleKeyPair sampleParse (\<lambda>k. 0)
       (sampleACME (Some (sampleBackend None)) ''a.example'')
       (sampleClient (sampleResource 90)) (sampleAccount 3)
     = (Return (),
        (sampleAccount 3)\<lparr>DomainsCertificate :=
           Some ((sampleDC 3)\<lparr>dc_Certificate := Some (sampleCertificate 90),
                              dc_TLSCert := Some \<lparr>t_Certificate = [[90]], t_PrivateKey = [1]\<rparr>\<rparr>)\<rparr>,
        [ClientRenewCertificate (sampleResource 3) False,
         BackendSaveAccount
           ((sampleAccount 3)\<lparr>DomainsCertificate :=
              Some ((sampleDC 3)\<lparr>dc_Certificate := Some (sampleCertificate 90),
                                 dc_TLSCert := Some \<lparr>t_Certificate = [[90]], t_PrivateKey = [1]\<rparr>\<rparr>)\<rparr>)])"
proof -
  have 1: "DomainsCertificate (sampleAccount 3) = Some (sampleDC 3)"
    by (simp add: sampleAccount_def)
  have 2: "dc_TLSCert (sampleDC 3) = Some \<lparr>t_Certificate = [[3]], t_PrivateKey = [1]\<rparr>"
    by (simp add: sampleDC_def)
  have 3: "needsUpdate sampleParse (\<lambda>k. 0) \<lparr>t_Certificate = [[3]], t_PrivateKey = [1]\<rparr>"
    by (simp add: needsUpdate_def sampleParse_def Before_def Add_def Hour_def Nanosecond_def)
  have 4: "dc_Certificate (sampleDC 3) = Some (sampleCertificate 3)"
    by (simp add: sampleDC_def)
  have 5: "sampleResource 3 =
      \<lparr>r_Domain = c_Domain (sampleCertificate 3), r_CertURL = c_CertURL (sampleCertificate 3),
       r_CertStableURL = c_CertStableURL (sampleCertificate 3),
       r_PrivateKey = c_PrivateKey (sampleCertificate 3),
       r_Certificate = c_Cert (sampleCertificate 3)\<rparr>"
    by (simp add: sampleResource_def sampleCertificate_def)
  have 6: "cl_RenewCertificate (sampleClient (sampleResource 90)) (sampleResource 3) False
             = Inr (sampleResource 90)"
    by (simp add: sampleClient_def)
  have 7: "sampleKeyPair (r_Certificate (sampleResource 90)) (r_PrivateKey (sampleResource 90))
             = Inr \<lparr>t_Certificate = [[90]], t_PrivateKey = [1]\<rparr>"
    by (simp add: sampleKeyPair_def sampleResource_def)
  have 8: "a_backend (sampleACME (Some (sampleBackend None)) ''a.example'')
             = Some (sampleBackend None)"
    by (simp add: sampleACME_def)
  have 9: "(sampleAccount 3)\<lparr>DomainsCertificate :=
           Some ((sampleDC 3)\<lparr>dc_Certificate := Some (sampleCertificate 90),
                              dc_TLSCert := Some \<lparr>t_Certificate = [[90]], t_PrivateKey = [1]\<rparr>\<rparr>)\<rparr>
      = (sampleAccount 3)\<lparr>DomainsCertificate :=
           Some ((sampleDC 3)\<lparr>dc_Certificate :=
                       Some \<lparr>c_Domain = r_Domain (sampleResource 90),
                             c_CertURL = r_CertURL (sampleResource 90),
                             c_CertStableURL = r_CertStableURL (sampleResource 90),
                             c_PrivateKey = r_PrivateKey (sampleResource 90),
                             c_Cert = r_Certificate (sampleResource 90)\<rparr>,
                    dc_TLSCert := Some \<lparr>t_Certificate = [[90]], t_PrivateKey = [1]\<rparr>\<rparr>)\<rparr>"
    by (simp add: sampleResource_def sampleCertificate_def)
  show ?thesis
    using renewCertificate_attaches_renewed [where K = sampleKeyPair, OF 1 2 3 4 5 6 7 8 9]
    by (simp add: sampleBackend_def)
qed

text \<open>
  Claim C3 as stated fails: the account is for \<open>a.example\<close>, the client answers the
  renewal with a resource for \<open>b.example\<close>, and \<open>renewCertificate\<close> returns no error,
  attaches that certificate to the account and saves it.
\<close>

theorem renewCertificate_foreign_domain_counterexample:
  "r_Domain foreignResource \<noteq> Main sampleDomain
   \<and> Option.bind (DomainsCertificate (sampleAccount 3)) dc_Domain = Some sampleDomain
   \<and> renewCertificate sampleKeyPair sampleParse (\<lambda>k. 0)
       (sampleACME (Some (sampleBackend None)) ''a.example'')
       (sampleClient foreignResource) (sampleAccount 3)
     = (Return (),
        (sampleAccount 3)\<lparr>DomainsCertificate :=
           Some \<lparr>dc_Certificate = Some foreignCertificate,
                 dc_Domain = Some sampleDomain,
                 dc_TLSCert = Some \<lparr>t_Certificate = [[90]], t_PrivateKey = [2]\<rparr>\<rparr>\<rparr>,
        [ClientRenewCertificate (sampleResource 3) False,
         BackendSaveAccount
           ((sampleAccount 3)\<lparr>DomainsCertificate :=
              Some \<lparr>dc_Certificate = Some foreignCertificate,
                    dc_Domain = Some sampleDomain,
                    dc_TLSCert = Some \<lparr>t_Certificate = [[90]], t_PrivateKey = [2]\<rparr>\<rparr>\<rparr>)])"
  by (simp add: renewCertificate_def RenewCertificate_def Init_def tlsCert_def needsUpdate_def
        Before_def Add_def Hour_def Nanosecond_def Let_def sampleParse_def sampleKeyPair_def
        sampleDomain_def sampleCertificate_def foreignCertificate_def sampleResource_def
        foreignResource_def sampleDC_def sampleAccount_def sampleBackend_def sampleClient_def
        sampleACME_def)

section \<open>Certificate acquisition\<close>

text \<open>
  Claim C8. In \<open>retrieveCertificate\<close>, when the certificate has been issued and attached
  and \<open>SaveAccount\<close> of the storage backend fails, the call returns an error (the save
  error, wrapped), and the account in memory holds the newly issued certificate and
  the TLS object derived from it.
\<close>

theorem retrieveCertificate_save_failure:
  assumes "a_Domain a = Some d"
    and "domains = [Main d] @ (case SANs d of None \<Rightarrow> [] | Some sans \<Rightarrow> sans)"
    and "cl_ObtainCertificate client domains bundleCA = (issued, [])"
    and "DomainsCertificate account = Some dc"
    and "K (r_Certificate issued) (r_PrivateKey issued) = Inr t"
    and "account' = account\<lparr>DomainsCertificate :=
           Some \<lparr>dc_Certificate =
                   Some \<lparr>c_Domain = r_Domain issued, c_CertURL = r_CertURL issued,
                         c_CertStableURL = r_CertStableURL issued,
                         c_PrivateKey = r_PrivateKey issued,
                         c_Cert = r_Certificate issued\<rparr>,
                 dc_Domain = Some d,
                 dc_TLSCert = Some t\<rparr>\<rparr>"
    and "a_backend a = Some b"
    and "b_SaveAccount b account' = Some err"
  shows "retrieveCertificate K a client account =
     (Fail (ErrorSavingAccount err), account',
      [ClientObtainCertificate domains bundleCA, BackendSaveAccount account'])"
  using assms
  by (cases dc)
     (simp add: retrieveCertificate_def getDomainCertificate_def AddCertificate_def Init_def
           tlsCert_def Let_def)

theorem retrieveCertificate_save_failure_witness:
  "retrieveCertificate sampleKeyPair
       (sampleACME (Some (sampleBackend (Some (External ''disk full'')))) ''a.example'')
       (sampleClient (sampleResource 90))
       \<lparr>Email = ''ops@a.example'', Registration = Some ''reg'', PrivateKey = [7],
        DomainsCertificate = Some \<lparr>dc_Certificate = Some brokenCertificate,
                                   dc_Domain = Some sampleDomain, dc_TLSCert = None\<rparr>\<rparr>
     = (Fail (ErrorSavingAccount (External ''disk full'')),
        sampleAccount 90,
        [ClientObtainCertificate [''a.example''] True, BackendSaveAccount (sampleAccount 90)])"
proof -
  let ?a = "sampleACME (Some (sampleBackend (Some (External ''disk full'')))) ''a.example''"
  let ?acc = "\<lparr>Email = ''ops@a.example'', Registration = Some ''reg'', PrivateKey = [7],
        DomainsCertificate = Some \<lparr>dc_Certificate = Some brokenCertificate,
                                   dc_Domain = Some sampleDomain, dc_TLSCert = None\<rparr>\<rparr>"
  have 1: "a_Domain ?a = Some sampleDomain"
    by (simp add: sampleACME_def sampleDomain_def)
  have 2: "[''a.example''] = [Main sampleDomain] @ (case SANs sampleDomain of None \<Rightarrow> [] | Some sans \<Rightarrow> sans)"
    by (simp add: sampleDomain_def)
  have 3: "cl_ObtainCertificate (sampleClient (sampleResource 90)) [''a.example''] bundleCA
             = (sampleResource 90, [])"
    by (simp add: sampleClient_def)
  have 4: "DomainsCertificate ?acc = Some \<lparr>dc_Certificate = Some brokenCertificate,
                                   dc_Domain = Some sampleDomain, dc_TLSCert = None\<rparr>"
    by simp
  have 5: "sampleKeyPair (r_Certificate (sampleResource 90)) (r_PrivateKey (sampleResource 90))
             = Inr \<lparr>t_Certificate = [[90]], t_PrivateKey = [1]\<rparr>"
    by (simp add: sampleKeyPair_def sampleResource_def)
  have 6: "sampleAccount 90 = ?acc\<lparr>DomainsCertificate :=
           Some \<lparr>dc_Certificate =
                   Some \<lparr>c_Domain = r_Domain (sampleResource 90),
                         c_CertURL = r_CertURL (sampleResource 90),
                         c_CertStableURL = r_CertStableURL (sampleResource 90),
                         c_PrivateKey = r_PrivateKey (sampleResource 90),
                         c_Cert = r_Certificate (sampleResource 90)\<rparr>,
                 dc_Domain = Some sampleDomain,
                 dc_TLSCert = Some \<lparr>t_Certificate = [[90]], t_PrivateKey = [1]\<rparr>\<rparr>\<rparr>"
    by (simp add: sampleAccount_def sampleDC_def sampleCertificate_def sampleResource_def)
  have 7: "a_backend ?a = Some (sampleBackend (Some (External ''disk full'')))"
    by (simp add: sampleACME_def)
  have 8: "b_SaveAccount (sampleBackend (Some (External ''disk full''))) (sampleAccount 90)
             = Some (External ''disk full'')"
    by (simp add: sampleBackend_def)
  show ?thesis
    using retrieveCertificate_save_failure [where K = sampleKeyPair, OF 1 2 3 4 5 6 7 8]
    by (simp add: bundleCA_def)
qed

section \<open>The TLS certificate resolver\<close>

text \<open>
  Every run of \<open>CreateConfig\<close> that returns without error outside the self-signed mode
  has installed the callback, over a configuration with a non-empty main domain and an
  account whose \<open>DomainCertificate\<close> holds a TLS certificate; the callback answers
  the main domain with that certificate.
\<close>

lemma Init_Return:
  "Init K dc = (Return u, dc') \<Longrightarrow> \<exists>cert. dc_TLSCert dc' = Some cert"
  by (auto simp: Init_cases split: option.splits sum.splits)

lemma retrieveCertificate_Return:
  "retrieveCertificate K a client account = (Return r, account', calls) \<Longrightarrow>
   \<exists>dc cert. DomainsCertificate account' = Some dc \<and> dc_TLSCert dc = Some cert"
  unfolding retrieveCertificate_def AddCertificate_def Let_def
  by (auto split: option.splits outcome.splits prod.splits dest!: Init_Return)

lemma NewAccount_Return:
  "NewAccount G email domain = Return account \<Longrightarrow>
   \<exists>dc c. DomainsCertificate account = Some dc \<and> dc_Certificate dc = Some c \<and> c_Cert c = []"
  by (auto simp: NewAccount_def split: sum.splits)

lemma CreateConfig_client_Return:
  assumes "CreateConfig_client ext a tlsConfig account needRegister calls0 = (Return (), run)"
    and "\<exists>dc. DomainsCertificate account = Some dc
            \<and> (dc_TLSCert dc \<noteq> None \<or> (\<exists>c. dc_Certificate dc = Some c \<and> c_Cert c = []))"
  shows "r_acme run = a \<and> GetCertificateSet (r_tlsConfig run)
     \<and> (\<exists>acc dc cert. r_account run = Some acc \<and> DomainsCertificate acc = Some dc
            \<and> dc_TLSCert dc = Some cert)"
  using assms
  unfolding CreateConfig_client_def Let_def
  by (auto split: option.splits outcome.splits prod.splits if_splits sum.splits
           dest!: retrieveCertificate_Return)

lemma CreateConfig_Return:
  assumes "CreateConfig ext a tlsConfig = (Return (), run)"
    and "\<not> a_SelfSigned a"
  shows "a_Domain (r_acme run) = a_Domain a \<and> GetCertificateSet (r_tlsConfig run)
     \<and> (\<exists>acc dc cert. r_account run = Some acc \<and> DomainsCertificate acc = Some dc
            \<and> dc_TLSCert dc = Some cert)"
  using assms
  unfolding CreateConfig_def Let_def
  apply (simp split: option.splits outcome.splits prod.splits if_splits)
   apply (auto dest!: Init_Return NewAccount_Return CreateConfig_client_Return)
  done

lemma CreateConfig_installs_resolver:
  assumes "CreateConfig ext a tlsConfig = (Return (), run)"
    and "\<not> a_SelfSigned a"
  shows "\<exists>d acc dc cert.
           a_Domain (r_acme run) = Some d \<and> Main d \<noteq> []
           \<and> GetCertificateSet (r_tlsConfig run)
           \<and> r_account run = Some acc \<and> DomainsCertificate acc = Some dc
           \<and> dc_TLSCert dc = Some cert
           \<and> GetCertificate (r_acme run) dc (Main d) = Return (Some cert)"
proof -
  from assms obtain d where d: "a_Domain a = Some d" "Main d \<noteq> []"
    by (auto simp: CreateConfig_def split: option.splits if_splits)
  from CreateConfig_Return [OF assms] d show ?thesis
    by (auto simp: GetCertificate_def)
qed

text \<open>
  Claim C6. The \<open>GetCertificate\<close> callback installed by \<open>CreateConfig\<close> returns the
  current TLS certificate of the \<open>DomainCertificate\<close> if and only if the requested
  server name equals the configured main domain; for every other name it returns the
  error "Unknown server name" and no certificate.
\<close>

theorem GetCertificate_iff:
  "a_Domain a = Some d \<Longrightarrow>
     (GetCertificate a dc name = Return (dc_TLSCert dc) \<longleftrightarrow> name = Main d)
     \<and> (name \<noteq> Main d \<longrightarrow> GetCertificate a dc name = Fail (ErrorString ''Unknown server name''))"
  by (simp add: GetCertificate_def)

theorem GetCertificate_iff_witness:
  "GetCertificate (sampleACME None ''a.example'') (sampleDC 30) ''a.example''
     = Return (Some \<lparr>t_Certificate = [[30]], t_PrivateKey = [1]\<rparr>)
   \<and> GetCertificate (sampleACME None ''a.example'') (sampleDC 30) ''b.example''
     = Fail (ErrorString ''Unknown server name'')"
proof -
  have d: "a_Domain (sampleACME None ''a.example'') = Some sampleDomain"
    by (simp add: sampleACME_def sampleDomain_def)
  have t: "dc_TLSCert (sampleDC 30) = Some \<lparr>t_Certificate = [[30]], t_PrivateKey = [1]\<rparr>"
    by (simp add: sampleDC_def)
  have ne: "''b.example'' \<noteq> Main sampleDomain" and eq: "''a.example'' = Main sampleDomain"
    by (simp_all add: sampleDomain_def)
  from GetCertificate_iff [OF d, of "sampleDC 30" "''a.example''"] eq t
  have 1: "GetCertificate (sampleACME None ''a.example'') (sampleDC 30) ''a.example''
     = Return (Some \<lparr>t_Certificate = [[30]], t_PrivateKey = [1]\<rparr>)"
    by simp
  from GetCertificate_iff [OF d, of "sampleDC 30" "''b.example''"] ne
  have 2: "GetCertificate (sampleACME None ''a.example'') (sampleDC 30) ''b.example''
     = Fail (ErrorString ''Unknown server name'')"
    by blast
  from 1 2 show ?thesis by (rule conjI)
qed

section \<open>The validity of a self-signed certificate\<close>

text \<open>
  Claim C9. When no expiration is supplied (the zero time), the certificate template
  that \<open>generateDerCert\<close> hands to \<open>x509.CreateCertificate\<close> has \<open>NotAfter\<close> equal to
  the time read plus 365 units of \<open>time.Duration\<close>, that is 365 nanoseconds: far less
  than 365 days (which is 86400000000000 times as long).
\<close>

theorem generateDerCert_default_expiration:
  assumes "IsZero expiration"
    and "randInt (2 ^ 128) = Inr serialNumber"
  shows "generateDerCert randInt clock CreateCertificate privateKey expiration domain =
           ofResult (CreateCertificate
             \<lparr>SerialNumber = serialNumber, CommonName = ''DEFAULT CERT'',
              NotBefore = clock 1, NotAfter = clock 0 + 365 * Nanosecond,
              KeyUsage = KeyUsageKeyEncipherment, BasicConstraintsValid = True,
              DNSNames = [domain]\<rparr> privateKey)
         \<and> 365 * Nanosecond = (365 :: int)
         \<and> 365 * Nanosecond < 365 * (24 * Hour)
         \<and> 365 * (24 * Hour) = 86400000000000 * (365 * Nanosecond)"
  using assms
  by (simp add: generateDerCert_def Add_def Nanosecond_def Hour_def Let_def)

theorem generateDerCert_default_expiration_witness:
  "generateDerCert (\<lambda>limit. Inr 5) (\<lambda>k. 1000 + int k) (\<lambda>template priv. Inr [90]) [7] 0
       ''a.example''
     = ofResult ((\<lambda>template priv. Inr [90])
         \<lparr>SerialNumber = 5, CommonName = ''DEFAULT CERT'', NotBefore = 1001,
          NotAfter = 1365, KeyUsage = KeyUsageKeyEncipherment, BasicConstraintsValid = True,
          DNSNames = [''a.example'']\<rparr> [7])
   \<and> (365 :: int) < 365 * (24 * Hour)"
proof -
  have z: "IsZero 0" by (simp add: IsZero_def)
  have r: "(\<lambda>limit::int. (Inr 5 :: error + int)) (2 ^ 128) = Inr 5" by simp
  from generateDerCert_default_expiration [of 0 "\<lambda>limit. Inr 5" 5 "\<lambda>k. 1000 + int k"
      "\<lambda>template priv. Inr [90]" "[7]" "''a.example''", OF z r]
  show ?thesis by (simp add: Nanosecond_def)
qed

section \<open>Configuration failures of \<open>CreateConfig\<close>\<close>

lemma newDNSProvider_unknown:
  "dns \<notin> {''cloudflare'', ''digitalocean'', ''dnsimple'', ''dyn'', ''gandi'', ''gcloud'',
            ''manual'', ''namecheap'', ''route53'', ''rfc2136'', ''vultr''}
   \<Longrightarrow> newDNSProvider ctor dns = Panic (''Unknown dns provider '' @ dns)"
  by (simp add: newDNSProvider_def)

lemma CreateConfig_no_main_domain:
  "a_Domain a = None \<or> (\<exists>d. a_Domain a = Some d \<and> Main d = []) \<Longrightarrow>
   CreateConfig ext a tlsConfig =
     (Panic ''The main domain name must be provided'',
      \<lparr>r_acme = a, r_tlsConfig = tlsConfig, r_account = None, r_calls = [], r_tasks = []\<rparr>)"
  by (auto simp: CreateConfig_def)

lemma CreateConfig_client_unknown_provider:
  "newDNSProvider (x_NewDNSProvider ext) (a_DNSProvider a) = Panic m \<Longrightarrow>
   buildACMEClient ext a account = Return client \<Longrightarrow>
   CreateConfig_client ext a tlsConfig account needRegister calls0 =
     (Panic m,
      \<lparr>r_acme = a, r_tlsConfig = tlsConfig, r_account = Some account,
       r_calls = calls0 @ [ClientExcludeChallenges [''http-01'', ''tls-sni-01'']],
       r_tasks = []\<rparr>)"
  by (simp add: CreateConfig_client_def)

text \<open>
  Claim C5, as amended. \<open>CreateConfig\<close> panics, it does not return an error, whenever
  the domain is absent or its main name is empty; it does so before anything is created
  and before any call to a collaborator. \<open>newDNSProvider\<close> panics on every name that is
  not one of its eleven provider names, and \<open>CreateConfig\<close> panics with it once it
  reaches that step: after the backend is initialised, the account loaded or created
  and the validation client built.
\<close>

theorem CreateConfig_panics_on_bad_configuration:
  "(a_Domain a = None \<or> (\<exists>d. a_Domain a = Some d \<and> Main d = []) \<longrightarrow>
      CreateConfig ext a tlsConfig =
        (Panic ''The main domain name must be provided'',
         \<lparr>r_acme = a, r_tlsConfig = tlsConfig, r_account = None, r_calls = [], r_tasks = []\<rparr>))
   \<and> (dns \<notin> {''cloudflare'', ''digitalocean'', ''dnsimple'', ''dyn'', ''gandi'', ''gcloud'',
               ''manual'', ''namecheap'', ''route53'', ''rfc2136'', ''vultr''} \<longrightarrow>
        newDNSProvider ctor dns = Panic (''Unknown dns provider '' @ dns)
        \<and> (a_DNSProvider a = dns \<and> buildACMEClient ext a account = Return client \<longrightarrow>
             CreateConfig_client ext a tlsConfig account needRegister calls0 =
               (Panic (''Unknown dns provider '' @ dns),
                \<lparr>r_acme = a, r_tlsConfig = tlsConfig, r_account = Some account,
                 r_calls = calls0 @ [ClientExcludeChallenges [''http-01'', ''tls-sni-01'']],
                 r_tasks = []\<rparr>)))"
proof (intro conjI impI)
  assume "a_Domain a = None \<or> (\<exists>d. a_Domain a = Some d \<and> Main d = [])"
  then show "CreateConfig ext a tlsConfig =
        (Panic ''The main domain name must be provided'',
         \<lparr>r_acme = a, r_tlsConfig = tlsConfig, r_account = None, r_calls = [], r_tasks = []\<rparr>)"
    by (rule CreateConfig_no_main_domain)
next
  assume u: "dns \<notin> {''cloudflare'', ''digitalocean'', ''dnsimple'', ''dyn'', ''gandi'', ''gcloud'',
               ''manual'', ''namecheap'', ''route53'', ''rfc2136'', ''vultr''}"
  then show "newDNSProvider ctor dns = Panic (''Unknown dns provider '' @ dns)"
    by (rule newDNSProvider_unknown)
  assume c: "a_DNSProvider a = dns \<and> buildACMEClient ext a account = Return client"
  have "newDNSProvider (x_NewDNSProvider ext) (a_DNSProvider a)
          = Panic (''Unknown dns provider '' @ dns)"
    using u c newDNSProvider_unknown [of dns "x_NewDNSProvider ext"] by simp
  then show "CreateConfig_client ext a tlsConfig account needRegister calls0 =
               (Panic (''Unknown dns provider '' @ dns),
                \<lparr>r_acme = a, r_tlsConfig = tlsConfig, r_account = Some account,
                 r_calls = calls0 @ [ClientExcludeChallenges [''http-01'', ''tls-sni-01'']],
                 r_tasks = []\<rparr>)"
    using c by (simp add: CreateConfig_client_unknown_provider)
qed

theorem CreateConfig_panics_on_bad_configuration_witness:
  "CreateConfig (sampleExternals Map.empty)
       ((sampleACME None ''a.example'')\<lparr>a_Domain := None\<rparr>) emptyTLSConfig =
     (Panic ''The main domain name must be provided'',
      \<lparr>r_acme = (sampleACME None ''a.example'')\<lparr>a_Domain := None\<rparr>,
       r_tlsConfig = emptyTLSConfig, r_account = None, r_calls = [], r_tasks = []\<rparr>)
   \<and> newDNSProvider (\<lambda>name. Inr name) ''route54'' = Panic ''Unknown dns provider route54''
   \<and> CreateConfig_client (sampleExternals Map.empty)
        ((sampleACME None ''a.example'')\<lparr>a_DNSProvider := ''route54''\<rparr>) emptyTLSConfig
        (sampleAccount 30) False [BackendLoadAccount ''a.example''] =
       (Panic ''Unknown dns provider route54'',
        \<lparr>r_acme = (sampleACME None ''a.example'')\<lparr>a_DNSProvider := ''route54''\<rparr>,
         r_tlsConfig = emptyTLSConfig, r_account = Some (sampleAccount 30),
         r_calls = [BackendLoadAccount ''a.example'',
                    ClientExcludeChallenges [''http-01'', ''tls-sni-01'']],
         r_tasks = []\<rparr>)"
proof -
  have 1: "a_Domain ((sampleACME None ''a.example'')\<lparr>a_Domain := None\<rparr>) = None
           \<or> (\<exists>d. a_Domain ((sampleACME None ''a.example'')\<lparr>a_Domain := None\<rparr>) = Some d
                    \<and> Main d = [])"
    by simp
  have 2: "''route54'' \<notin> {''cloudflare'', ''digitalocean'', ''dnsimple'', ''dyn'', ''gandi'',
              ''gcloud'', ''manual'', ''namecheap'', ''route53'', ''rfc2136'', ''vultr''}"
    by simp
  have 3: "a_DNSProvider ((sampleACME None ''a.example'')\<lparr>a_DNSProvider := ''route54''\<rparr>)
             = ''route54''
           \<and> buildACMEClient (sampleExternals Map.empty)
               ((sampleACME None ''a.example'')\<lparr>a_DNSProvider := ''route54''\<rparr>) (sampleAccount 30)
             = Return (sampleClient (sampleResource 90))"
    by (simp add: buildACMEClient_def sampleExternals_def sampleACME_def)
  from CreateConfig_panics_on_bad_configuration
         [of "(sampleACME None ''a.example'')\<lparr>a_Domain := None\<rparr>" "sampleExternals Map.empty"
             emptyTLSConfig] 1
  have a: "CreateConfig (sampleExternals Map.empty)
       ((sampleACME None ''a.example'')\<lparr>a_Domain := None\<rparr>) emptyTLSConfig =
     (Panic ''The main domain name must be provided'',
      \<lparr>r_acme = (sampleACME None ''a.example'')\<lparr>a_Domain := None\<rparr>,
       r_tlsConfig = emptyTLSConfig, r_account = None, r_calls = [], r_tasks = []\<rparr>)"
    by blast
  from CreateConfig_panics_on_bad_configuration
         [of "(sampleACME None ''a.example'')\<lparr>a_DNSProvider := ''route54''\<rparr>"
             "sampleExternals Map.empty" emptyTLSConfig "''route54''" "\<lambda>name. Inr name"
             "sampleAccount 30" "sampleClient (sampleResource 90)" False
             "[BackendLoadAccount ''a.example'']"] 2 3
  have b: "newDNSProvider (\<lambda>name. Inr name) ''route54'' = Panic (''Unknown dns provider '' @ ''route54'')
     \<and> CreateConfig_client (sampleExternals Map.empty)
        ((sampleACME None ''a.example'')\<lparr>a_DNSProvider := ''route54''\<rparr>) emptyTLSConfig
        (sampleAccount 30) False [BackendLoadAccount ''a.example''] =
       (Panic (''Unknown dns provider '' @ ''route54''),
        \<lparr>r_acme = (sampleACME None ''a.example'')\<lparr>a_DNSProvider := ''route54''\<rparr>,
         r_tlsConfig = emptyTLSConfig, r_account = Some (sampleAccount 30),
         r_calls = [BackendLoadAccount ''a.example'']
                    @ [ClientExcludeChallenges [''http-01'', ''tls-sni-01'']],
         r_tasks = []\<rparr>)"
    by blast
  from a b show ?thesis by simp
qed

text \<open>
  Claim C5 as stated fails: with an empty main domain, and with the provider name
  \<open>bogus\<close>, \<open>CreateConfig\<close> panics instead of returning an error to its caller.
\<close>

theorem CreateConfig_panics_counterexample:
  "fst (CreateConfig (sampleExternals Map.empty) (sampleACME None []) emptyTLSConfig)
     = Panic ''The main domain name must be provided''
   \<and> fst (CreateConfig
           (sampleExternals (Map.empty(''fs'' \<mapsto> (Some (sampleBackend None), None))))
           ((sampleACME None ''a.example'')\<lparr>a_DNSProvider := ''bogus''\<rparr>) emptyTLSConfig)
     = Panic ''Unknown dns provider bogus''"
  by (simp add: CreateConfig_def CreateConfig_client_def InitBackend_def GetBackend_def
        NewAccount_def buildACMEClient_def newDNSProvider_def Let_def
        sampleExternals_def sampleACME_def sampleBackend_def emptyTLSConfig_def)

section \<open>The filesystem backend: an empty file is no account\<close>

lemma LoadAccount_not_exist:
  "o_Stat os (key os StorageDir domain) = Inl (NotExist p) \<Longrightarrow>
   LoadAccount os StorageDir domain = (None, None)"
  by (simp add: LoadAccount_def IsNotExist_def Let_def)

lemma LoadAccount_size_zero:
  "o_Stat os (key os StorageDir domain) = Inr 0 \<Longrightarrow>
   LoadAccount os StorageDir domain = (None, None)"
  by (simp add: LoadAccount_def IsNotExist_def Let_def)

lemma CreateConfig_no_account:
  assumes "a_Domain a = Some d" and "Main d \<noteq> []" and "\<not> a_SelfSigned a"
    and "name = (if a_BackendName a = [] then ''fs'' else a_BackendName a)"
    and "InitBackend (x_backends ext) name = (Some b, None)"
    and "b_LoadAccount b (Main d) = (None, None)"
  shows "CreateConfig ext a tlsConfig =
     (case NewAccount (x_GenerateKey ext) (a_Email a) (a_Domain a) of
        Fail err \<Rightarrow>
          (Fail err,
           \<lparr>r_acme = a\<lparr>a_BackendName := name, a_backend := Some b\<rparr>, r_tlsConfig = tlsConfig,
            r_account = None, r_calls = [BackendLoadAccount (Main d)], r_tasks = []\<rparr>)
      | Panic m \<Rightarrow>
          (Panic m,
           \<lparr>r_acme = a\<lparr>a_BackendName := name, a_backend := Some b\<rparr>, r_tlsConfig = tlsConfig,
            r_account = None, r_calls = [BackendLoadAccount (Main d)], r_tasks = []\<rparr>)
      | Return account \<Rightarrow>
          CreateConfig_client ext (a\<lparr>a_BackendName := name, a_backend := Some b\<rparr>) tlsConfig
            account True [BackendLoadAccount (Main d)])"
  using assms
  by (cases "a_BackendName a = []")
     (simp_all add: CreateConfig_def Let_def split: outcome.splits)

text \<open>
  Claim C10. For every domain, \<open>LoadAccount\<close> of the filesystem backend returns a nil
  account with a nil error both when the storage file does not exist and when it exists
  with size zero; and \<open>CreateConfig\<close> over this backend then creates a fresh account
  with \<open>NewAccount\<close> and goes on to register it, instead of reporting an error.
\<close>

theorem LoadAccount_empty_file_is_no_account:
  "(o_Stat os (key os StorageDir domain) = Inl (NotExist p)
      \<or> o_Stat os (key os StorageDir domain) = Inr 0 \<longrightarrow>
    LoadAccount os StorageDir domain = (None, None))
   \<and> ((o_Stat os (key os StorageDir (Main d)) = Inl (NotExist p)
         \<or> o_Stat os (key os StorageDir (Main d)) = Inr 0)
       \<and> a_Domain a = Some d \<and> Main d \<noteq> [] \<and> \<not> a_SelfSigned a
       \<and> name = (if a_BackendName a = [] then ''fs'' else a_BackendName a)
       \<and> InitBackend (x_backends ext) name = (Some b, None)
       \<and> b_LoadAccount b = LoadAccount os StorageDir \<longrightarrow>
       CreateConfig ext a tlsConfig =
         (case NewAccount (x_GenerateKey ext) (a_Email a) (a_Domain a) of
            Fail err \<Rightarrow>
              (Fail err,
               \<lparr>r_acme = a\<lparr>a_BackendName := name, a_backend := Some b\<rparr>,
                r_tlsConfig = tlsConfig, r_account = None,
                r_calls = [BackendLoadAccount (Main d)], r_tasks = []\<rparr>)
          | Panic m \<Rightarrow>
              (Panic m,
               \<lparr>r_acme = a\<lparr>a_BackendName := name, a_backend := Some b\<rparr>,
                r_tlsConfig = tlsConfig, r_account = None,
                r_calls = [BackendLoadAccount (Main d)], r_tasks = []\<rparr>)
          | Return account \<Rightarrow>
              CreateConfig_client ext (a\<lparr>a_BackendName := name, a_backend := Some b\<rparr>)
                tlsConfig account True [BackendLoadAccount (Main d)]))"
proof (intro conjI impI)
  assume "o_Stat os (key os StorageDir domain) = Inl (NotExist p)
      \<or> o_Stat os (key os StorageDir domain) = Inr 0"
  then show "LoadAccount os StorageDir domain = (None, None)"
    using LoadAccount_not_exist LoadAccount_size_zero by blast
next
  assume h: "(o_Stat os (key os StorageDir (Main d)) = Inl (NotExist p)
         \<or> o_Stat os (key os StorageDir (Main d)) = Inr 0)
       \<and> a_Domain a = Some d \<and> Main d \<noteq> [] \<and> \<not> a_SelfSigned a
       \<and> name = (if a_BackendName a = [] then ''fs'' else a_BackendName a)
       \<and> InitBackend (x_backends ext) name = (Some b, None)
       \<and> b_LoadAccount b = LoadAccount os StorageDir"
  then have "LoadAccount os StorageDir (Main d) = (None, None)"
    using LoadAccount_not_exist LoadAccount_size_zero by blast
  with h have l: "b_LoadAccount b (Main d) = (None, None)" by simp
  from h have 1: "a_Domain a = Some d" and 2: "Main d \<noteq> []" and 3: "\<not> a_SelfSigned a"
    and 4: "name = (if a_BackendName a = [] then ''fs'' else a_BackendName a)"
    and 5: "InitBackend (x_backends ext) name = (Some b, None)"
    by blast+
  show "CreateConfig ext a tlsConfig =
         (case NewAccount (x_GenerateKey ext) (a_Email a) (a_Domain a) of
            Fail err \<Rightarrow>
              (Fail err,
               \<lparr>r_acme = a\<lparr>a_BackendName := name, a_backend := Some b\<rparr>,
                r_tlsConfig = tlsConfig, r_account = None,
                r_calls = [BackendLoadAccount (Main d)], r_tasks = []\<rparr>)
          | Panic m \<Rightarrow>
              (Panic m,
               \<lparr>r_acme = a\<lparr>a_BackendName := name, a_backend := Some b\<rparr>,
                r_tlsConfig = tlsConfig, r_account = None,
                r_calls = [BackendLoadAccount (Main d)], r_tasks = []\<rparr>)
          | Return account \<Rightarrow>
              CreateConfig_client ext (a\<lparr>a_BackendName := name, a_backend := Some b\<rparr>)
                tlsConfig account True [BackendLoadAccount (Main d)])"
    by (rule CreateConfig_no_account [OF 1 2 3 4 5 l])
qed

text \<open>
  The storage file of \<open>a.example\<close> absent, and present with size zero: both load as
  no account, and over the empty file \<open>CreateConfig\<close> continues with a fresh account
  that is to be registered.
\<close>

theorem LoadAccount_empty_file_is_no_account_witness:
  "LoadAccount (sampleOS (\<lambda>path. Inl (NotExist path))) ''/var'' ''a.example'' = (None, None)
   \<and> LoadAccount (sampleOS (\<lambda>path. Inr 0)) ''/var'' ''a.example'' = (None, None)
   \<and> CreateConfig
        (sampleExternals
           (Map.empty(''fs'' \<mapsto> (Some (sampleFsBackend (sampleOS (\<lambda>path. Inr 0)) ''/var''), None))))
        (sampleACME None ''a.example'') emptyTLSConfig
      = CreateConfig_client
          (sampleExternals
             (Map.empty(''fs'' \<mapsto> (Some (sampleFsBackend (sampleOS (\<lambda>path. Inr 0)) ''/var''), None))))
          ((sampleACME None ''a.example'')
             \<lparr>a_BackendName := ''fs'',
              a_backend := Some (sampleFsBackend (sampleOS (\<lambda>path. Inr 0)) ''/var'')\<rparr>)
          emptyTLSConfig
          \<lparr>Email = ''ops@a.example'', Registration = None, PrivateKey = [7],
           DomainsCertificate =
             Some \<lparr>dc_Certificate =
                     Some \<lparr>c_Domain = [], c_CertURL = [], c_CertStableURL = [],
                           c_PrivateKey = [], c_Cert = []\<rparr>,
                   dc_Domain = Some sampleDomain,
                   dc_TLSCert = None\<rparr>\<rparr>
          True [BackendLoadAccount ''a.example'']"
proof -
  let ?absent = "sampleOS (\<lambda>path. Inl (NotExist path))"
  let ?empty = "sampleOS (\<lambda>path. Inr 0)"
  let ?b = "sampleFsBackend ?empty ''/var''"
  let ?ext = "sampleExternals (Map.empty(''fs'' \<mapsto> (Some ?b, None)))"
  let ?a = "sampleACME None ''a.example''"
  have s1: "o_Stat ?absent (key ?absent ''/var'' ''a.example'')
              = Inl (NotExist ''/var/a.example.json'')
            \<or> o_Stat ?absent (key ?absent ''/var'' ''a.example'') = Inr 0"
    by (simp add: sampleOS_def key_def)
  have s2: "o_Stat ?empty (key ?empty ''/var'' ''a.example'')
              = Inl (NotExist ''/var/a.example.json'')
            \<or> o_Stat ?empty (key ?empty ''/var'' ''a.example'') = Inr 0"
    by (simp add: sampleOS_def key_def)
  have h: "(o_Stat ?empty (key ?empty ''/var'' (Main sampleDomain))
              = Inl (NotExist ''/var/a.example.json'')
            \<or> o_Stat ?empty (key ?empty ''/var'' (Main sampleDomain)) = Inr 0)
       \<and> a_Domain ?a = Some sampleDomain \<and> Main sampleDomain \<noteq> [] \<and> \<not> a_SelfSigned ?a
       \<and> ''fs'' = (if a_BackendName ?a = [] then ''fs'' else a_BackendName ?a)
       \<and> InitBackend (x_backends ?ext) ''fs'' = (Some ?b, None)
       \<and> b_LoadAccount ?b = LoadAccount ?empty ''/var''"
    by (simp add: sampleOS_def key_def sampleACME_def sampleDomain_def sampleExternals_def
          InitBackend_def GetBackend_def sampleFsBackend_def)
  from LoadAccount_empty_file_is_no_account
         [of ?absent "''/var''" "''a.example''" "''/var/a.example.json''"] s1
  have 1: "LoadAccount ?absent ''/var'' ''a.example'' = (None, None)" by blast
  from LoadAccount_empty_file_is_no_account
         [of ?empty "''/var''" "''a.example''" "''/var/a.example.json''"] s2
  have 2: "LoadAccount ?empty ''/var'' ''a.example'' = (None, None)" by blast
  from LoadAccount_empty_file_is_no_account
         [of ?empty "''/var''" "''a.example''" "''/var/a.example.json''" sampleDomain ?a
             "''fs''" ?ext ?b emptyTLSConfig] h
  have 3: "CreateConfig ?ext ?a emptyTLSConfig =
         (case NewAccount (x_GenerateKey ?ext) (a_Email ?a) (a_Domain ?a) of
            Fail err \<Rightarrow>
              (Fail err,
               \<lparr>r_acme = ?a\<lparr>a_BackendName := ''fs'', a_backend := Some ?b\<rparr>,
                r_tlsConfig = emptyTLSConfig, r_account = None,
                r_calls = [BackendLoadAccount (Main sampleDomain)], r_tasks = []\<rparr>)
          | Panic m \<Rightarrow>
              (Panic m,
               \<lparr>r_acme = ?a\<lparr>a_BackendName := ''fs'', a_backend := Some ?b\<rparr>,
                r_tlsConfig = emptyTLSConfig, r_account = None,
                r_calls = [BackendLoadAccount (Main sampleDomain)], r_tasks = []\<rparr>)
          | Return account \<Rightarrow>
              CreateConfig_client ?ext (?a\<lparr>a_BackendName := ''fs'', a_backend := Some ?b\<rparr>)
                emptyTLSConfig account True [BackendLoadAccount (Main sampleDomain)])"
    by blast
  have n: "NewAccount (x_GenerateKey ?ext) (a_Email ?a) (a_Domain ?a) =
     Return \<lparr>Email = ''ops@a.example'', Registration = None, PrivateKey = [7],
           DomainsCertificate =
             Some \<lparr>dc_Certificate =
                     Some \<lparr>c_Domain = [], c_CertURL = [], c_CertStableURL = [],
                           c_PrivateKey = [], c_Cert = []\<rparr>,
                   dc_Domain = Some sampleDomain,
                   dc_TLSCert = None\<rparr>\<rparr>"
    by (simp add: NewAccount_def sampleExternals_def sampleACME_def sampleDomain_def)
  have m: "Main sampleDomain = ''a.example''" by (simp add: sampleDomain_def)
  from 3 have 4: "CreateConfig ?ext ?a emptyTLSConfig =
      CreateConfig_client ?ext (?a\<lparr>a_BackendName := ''fs'', a_backend := Some ?b\<rparr>)
          emptyTLSConfig
          \<lparr>Email = ''ops@a.example'', Registration = None, PrivateKey = [7],
           DomainsCertificate =
             Some \<lparr>dc_Certificate =
                     Some \<lparr>c_Domain = [], c_CertURL = [], c_CertStableURL = [],
                           c_PrivateKey = [], c_Cert = []\<rparr>,
                   dc_Domain = Some sampleDomain,
                   dc_TLSCert = None\<rparr>\<rparr>
          True [BackendLoadAccount ''a.example'']"
    unfolding n m by simp
  from 1 2 4 show ?thesis by blast
qed

end
